theory Spec2Isabelle
  imports Complex_Main
begin

section \<open>Values of the language\<close>

subsection \<open>Numbers\<close>

text \<open>
  A JavaScript Number: an IEEE-754 double. \<open>Fin r\<close> is the finite double whose value is
  the real \<open>r\<close>; negative zero is identified with zero, as \<open>===\<close> identifies them. The
  three special values are kept apart, since the input validation of \<open>_newWorkout\<close> is
  about them.
\<close>

datatype jsnum = NaN | PosInf | NegInf | Fin real

text \<open>\<open>Number.isFinite(input)\<close> on a Number.\<close>

fun isFinite :: "jsnum \<Rightarrow> bool" where
  "isFinite (Fin r) = True"
| "isFinite n = False"

text \<open>\<open>input > 0\<close> on a Number: every comparison with NaN is false.\<close>

fun gt0 :: "jsnum \<Rightarrow> bool" where
  "gt0 (Fin r) = (0 < r)"
| "gt0 PosInf = True"
| "gt0 n = False"

text \<open>
  The rounding of a real result to a double, to the nearest with ties to the even
  significand. \<open>ulp_exp x\<close> is the exponent of the spacing of the doubles around \<open>x\<close>: 52
  below the binary exponent of \<open>x\<close> (53 significant bits), and never below that of the
  subnormal numbers. \<open>rne\<close> rounds to the nearest integer, a tie to the even one. A
  result that rounds to \<open>2^1024\<close> or beyond is an infinity.
\<close>

definition rne :: "real \<Rightarrow> int" where
  "rne q =
     (let f = \<lfloor>q\<rfloor> in
      if q - of_int f < 1 / 2 then f
      else if 1 / 2 < q - of_int f then f + 1
      else if even f then f else f + 1)"

definition ulp_exp :: "real \<Rightarrow> int" where
  "ulp_exp x = max \<lfloor>log 2 \<bar>x\<bar>\<rfloor> (- 1022) - 52"

definition overflow :: real where
  "overflow = 2 powi 1024"

definition to_double :: "real \<Rightarrow> jsnum" where
  "to_double x =
     (if x = 0 then Fin 0
      else
        (let u = 2 powi ulp_exp x; r = of_int (rne (x / u)) * u in
         if overflow \<le> \<bar>r\<bar> then (if 0 < x then PosInf else NegInf) else Fin r))"

text \<open>
  The operator \<open>/\<close> on two Numbers: the real quotient of two finite operands, rounded. A
  zero divisor is taken as the positive zero; in the two divisions of this program the
  divisor is a distance that the form has checked to be positive, the constant 60, or a
  quotient of a positive duration by 60 (the positive zero when it rounds to zero).
\<close>

fun js_div :: "jsnum \<Rightarrow> jsnum \<Rightarrow> jsnum" where
  "js_div NaN y = NaN"
| "js_div x NaN = NaN"
| "js_div (Fin a) (Fin b) =
     (if b = 0 then (if a = 0 then NaN else if 0 < a then PosInf else NegInf)
      else to_double (a / b))"
| "js_div (Fin a) y = Fin 0"
| "js_div PosInf (Fin b) = (if b < 0 then NegInf else PosInf)"
| "js_div NegInf (Fin b) = (if b < 0 then PosInf else NegInf)"
| "js_div x y = NaN"

subsection \<open>Strings\<close>

text \<open>
  The decimal text of a natural number and of an integer, as the conversion of an
  integer-valued Number to a string writes it (no exponent below \<open>10^21\<close>; a clock
  reading is far below).
\<close>

definition digit_char :: "nat \<Rightarrow> char" where
  "digit_char d = ''0123456789'' ! d"

fun digits_of :: "nat \<Rightarrow> string" where
  "digits_of n =
     (if n < 10 then [digit_char n] else digits_of (n div 10) @ [digit_char (n mod 10)])"

declare digits_of.simps [simp del]

definition int_to_string :: "int \<Rightarrow> string" where
  "int_to_string i =
     (if i < 0 then CHR ''-'' # digits_of (nat (- i)) else digits_of (nat i))"

text \<open>\<open>s.slice(-k)\<close> for \<open>k > 0\<close>: the last \<open>k\<close> characters, all of \<open>s\<close> when it is shorter.\<close>

definition slice_last :: "nat \<Rightarrow> string \<Rightarrow> string" where
  "slice_last k s = drop (length s - k) s"

text \<open>
  \<open>toUpperCase\<close> on the ASCII letters (the strings it is applied to are the two type
  names, which are ASCII).
\<close>

definition upper_char :: "char \<Rightarrow> char" where
  "upper_char c =
     (case map_of (zip ''abcdefghijklmnopqrstuvwxyz'' ''ABCDEFGHIJKLMNOPQRSTUVWXYZ'') c of
        Some u \<Rightarrow> u
      | None \<Rightarrow> c)"

definition toUpperCase :: "string \<Rightarrow> string" where
  "toUpperCase s = map upper_char s"

subsection \<open>Dates\<close>

text \<open>
  A Date object, given by the three methods the program applies to one:
  \<open>getMonth()\<close> (0 to 11) and \<open>getDate()\<close> in the local time zone, and
  \<open>toISOString()\<close>, which \<open>JSON.stringify\<close> calls through \<open>toJSON\<close>. The calendar
  arithmetic and the time zone belong to the engine.
\<close>

record jsdate =
  getMonth :: nat
  getDate :: nat
  toISOString :: string

section \<open>The workout classes\<close>

datatype kind = RunningC | CyclingC

text \<open>
  An instance of \<open>Running\<close> or \<open>Cycling\<close>. \<open>cls\<close> is the class that built it (its
  prototype). The fields are the own properties; a kind-specific or derived property that
  has not been assigned is \<open>None\<close>. \<open>marker\<close> is the Leaflet layer stored on the record by
  \<open>_renderWorkoutMarker\<close>, named by its layer number, or \<open>None\<close> while the property is
  \<open>undefined\<close>. The constructors' numeric arguments are Numbers at their only call sites.
\<close>

record workout =
  cls :: kind
  date :: jsdate
  id' :: string
  marker :: "nat option"
  coords :: "jsnum \<times> jsnum"
  distance :: jsnum
  duration :: jsnum
  cadence :: "jsnum option"
  pace :: "jsnum option"
  elevationGain :: "jsnum option"
  speed :: "jsnum option"
  description :: "string option"

text \<open>The class field \<open>type\<close>: \<open>'running'\<close> in \<open>Running\<close>, \<open>'cycling'\<close> in \<open>Cycling\<close>.\<close>

definition type' :: "workout \<Rightarrow> string" where
  "type' w = (case cls w of RunningC \<Rightarrow> ''running'' | CyclingC \<Rightarrow> ''cycling'')"

definition months :: "string list" where
  "months = [''January'', ''February'', ''March'', ''April'', ''May'', ''June'', ''July'',
     ''August'', ''September'', ''October'', ''November'', ''December'']"

text \<open>
  \<open>_setDescription\<close>: the template string, stored in \<open>this.description\<close>. An index
  outside the array reads \<open>undefined\<close>, which the template writes out as text.
\<close>

definition setDescription :: "workout \<Rightarrow> workout" where
  "setDescription w =
     w\<lparr>description := Some
       (toUpperCase (take 1 (type' w)) @ drop 1 (type' w) @ '' on '' @
        (if getMonth (date w) < length months then months ! getMonth (date w)
         else ''undefined'') @
        '' '' @ digits_of (getDate (date w)))\<rparr>"

text \<open>
  \<open>calcPace\<close> and \<open>calcSpeed\<close>: each stores the quotient in the record and returns it;
  the result is the returned value and the record as updated.
\<close>

definition calcPace :: "workout \<Rightarrow> jsnum \<times> workout" where
  "calcPace w = (let p = js_div (duration w) (distance w) in (p, w\<lparr>pace := Some p\<rparr>))"

definition calcSpeed :: "workout \<Rightarrow> jsnum \<times> workout" where
  "calcSpeed w =
     (let s = js_div (distance w) (js_div (duration w) (Fin 60)) in (s, w\<lparr>speed := Some s\<rparr>))"

text \<open>The class field \<open>id\<close>, from the clock reading \<open>Date.now()\<close>.\<close>

definition Workout_id :: "int \<Rightarrow> string" where
  "Workout_id now = slice_last 10 (int_to_string now)"

text \<open>
  The constructors. \<open>d\<close> is \<open>new Date()\<close> and \<open>now\<close> is \<open>Date.now()\<close>, the two clock
  readings of the class fields \<open>date\<close> and \<open>id\<close>. \<open>Running_fields\<close> and
  \<open>Cycling_fields\<close> are the object when the constructor body has assigned the
  kind-specific input; the two method calls follow.
\<close>

definition Running_fields ::
  "jsdate \<Rightarrow> int \<Rightarrow> jsnum \<times> jsnum \<Rightarrow> jsnum \<Rightarrow> jsnum \<Rightarrow> jsnum \<Rightarrow> workout" where
  "Running_fields d now crds dis dur cad =
     \<lparr>cls = RunningC, date = d, id' = Workout_id now, marker = None,
      coords = crds, distance = dis, duration = dur, cadence = Some cad, pace = None,
      elevationGain = None, speed = None, description = None\<rparr>"

definition Running_new ::
  "jsdate \<Rightarrow> int \<Rightarrow> jsnum \<times> jsnum \<Rightarrow> jsnum \<Rightarrow> jsnum \<Rightarrow> jsnum \<Rightarrow> workout" where
  "Running_new d now crds dis dur cad =
     setDescription (snd (calcPace (Running_fields d now crds dis dur cad)))"

definition Cycling_fields ::
  "jsdate \<Rightarrow> int \<Rightarrow> jsnum \<times> jsnum \<Rightarrow> jsnum \<Rightarrow> jsnum \<Rightarrow> jsnum \<Rightarrow> workout" where
  "Cycling_fields d now crds dis dur elev =
     \<lparr>cls = CyclingC, date = d, id' = Workout_id now, marker = None,
      coords = crds, distance = dis, duration = dur, cadence = None, pace = None,
      elevationGain = Some elev, speed = None, description = None\<rparr>"

definition Cycling_new ::
  "jsdate \<Rightarrow> int \<Rightarrow> jsnum \<times> jsnum \<Rightarrow> jsnum \<Rightarrow> jsnum \<Rightarrow> jsnum \<Rightarrow> workout" where
  "Cycling_new d now crds dis dur elev =
     setDescription (snd (calcSpeed (Cycling_fields d now crds dis dur elev)))"

section \<open>Values, objects and JSON\<close>

text \<open>The exceptions the engine raises in this program; the text is a description.\<close>

datatype error = SyntaxError | TypeError string

text \<open>
  A value. An object is its own properties in creation order, with the class that built
  it (\<open>None\<close> for a plain object, as \<open>JSON.parse\<close> makes them). \<open>DateObj\<close> is a Date and
  \<open>MarkerObj\<close> a Leaflet marker that has been added to the map.
\<close>

datatype jsval =
    Undefined
  | Null
  | Boolean bool
  | Number jsnum
  | Str string
  | Array "jsval list"
  | Object "kind option" "(string \<times> jsval) list"
  | DateObj jsdate
  | MarkerObj nat

fun opt_prop :: "string \<Rightarrow> ('a \<Rightarrow> jsval) \<Rightarrow> 'a option \<Rightarrow> (string \<times> jsval) list" where
  "opt_prop k f None = []"
| "opt_prop k f (Some x) = [(k, f x)]"

text \<open>
  The own properties of an instance, in the order the class fields and the constructors
  create them: \<open>date\<close>, \<open>id\<close>, \<open>marker\<close> (declared without a value, so present and
  \<open>undefined\<close>), the three of the base constructor, \<open>type\<close>, then the kind's own.
\<close>

definition kind_props :: "workout \<Rightarrow> (string \<times> jsval) list" where
  "kind_props w =
     opt_prop ''cadence'' Number (cadence w)
     @ opt_prop ''pace'' Number (pace w)
     @ opt_prop ''elevationGain'' Number (elevationGain w)
     @ opt_prop ''speed'' Number (speed w)
     @ opt_prop ''description'' Str (description w)"

definition own_props :: "workout \<Rightarrow> (string \<times> jsval) list" where
  "own_props w =
     [(''date'', DateObj (date w)),
      (''id'', Str (id' w)),
      (''marker'', (case marker w of None \<Rightarrow> Undefined | Some m \<Rightarrow> MarkerObj m)),
      (''coords'', Array [Number (fst (coords w)), Number (snd (coords w))]),
      (''distance'', Number (distance w)),
      (''duration'', Number (duration w)),
      (''type'', Str (type' w))]
     @ kind_props w"

definition to_object :: "workout \<Rightarrow> jsval" where
  "to_object w = Object (Some (cls w)) (own_props w)"

text \<open>
  Reading a property. The names this program reads (\<open>type\<close>, \<open>id\<close>, \<open>coords\<close>,
  \<open>marker\<close>, ...) are no built-in property of a primitive, an array, a Date or a
  marker, so only an object can hold one; on \<open>undefined\<close> and \<open>null\<close> the read raises.
\<close>

fun read_prop :: "jsval \<Rightarrow> string \<Rightarrow> jsval" where
  "read_prop (Object c ps) p = (case map_of ps p of Some v \<Rightarrow> v | None \<Rightarrow> Undefined)"
| "read_prop v p = Undefined"

definition get :: "jsval \<Rightarrow> string \<Rightarrow> error + jsval" where
  "get v p =
     (if v = Undefined \<or> v = Null
      then Inl (TypeError ''Cannot read properties of undefined or null'')
      else Inr (read_prop v p))"

fun put :: "string \<Rightarrow> jsval \<Rightarrow> (string \<times> jsval) list \<Rightarrow> (string \<times> jsval) list" where
  "put k v [] = [(k, v)]"
| "put k v ((k', v') # ps) = (if k' = k then (k, v) # ps else (k', v') # put k v ps)"

text \<open>
  Assigning a property (the file is in strict mode, so the assignment raises on a
  primitive). An array, a Date or a marker would take the property, which this
  datatype has no place for; none of them has an \<open>id\<close>, so \<open>_findWorkout\<close> never
  returns one and the property is never read back.
\<close>

fun set_prop :: "jsval \<Rightarrow> string \<Rightarrow> jsval \<Rightarrow> error + jsval" where
  "set_prop (Object c ps) k v = Inr (Object c (put k v ps))"
| "set_prop (Array xs) k v = Inr (Array xs)"
| "set_prop (DateObj d) k v = Inr (DateObj d)"
| "set_prop (MarkerObj m) k v = Inr (MarkerObj m)"
| "set_prop x k v = Inl (TypeError ''Cannot create property'')"

text \<open>The values that count as false in \<open>!x\<close>.\<close>

fun falsy :: "jsval \<Rightarrow> bool" where
  "falsy Undefined = True"
| "falsy Null = True"
| "falsy (Boolean b) = (\<not> b)"
| "falsy (Number n) = (n = NaN \<or> n = Fin 0)"
| "falsy (Str s) = (s = [])"
| "falsy v = False"

text \<open>
  JSON text is represented by the tree it denotes, with the members of an object in the
  order and under the names \<open>JSON.parse\<close> creates the properties.
\<close>

datatype json =
    JNull
  | JBool bool
  | JNum real
  | JStr string
  | JArr "json list"
  | JObj "(string \<times> json) list"

text \<open>
  \<open>JSON.stringify\<close>. At the top it gives no text for \<open>undefined\<close> (\<open>None\<close>). A
  property whose value is \<open>undefined\<close> is left out, an array element that is
  \<open>undefined\<close> is written \<open>null\<close>, and so is a Number that is not finite. A Date is
  written through \<open>toJSON\<close>. A marker on the map refers to the map, whose layer table
  refers back to the marker: the engine raises its TypeError for a circular structure
  (the source notes this error at the save in \<open>_removeWorkout\<close>).
\<close>

fun JSON_stringify :: "jsval \<Rightarrow> error + json option"
  and stringify_elems :: "jsval list \<Rightarrow> error + json list"
  and stringify_props :: "(string \<times> jsval) list \<Rightarrow> error + (string \<times> json) list"
where
  "JSON_stringify Undefined = Inr None"
| "JSON_stringify Null = Inr (Some JNull)"
| "JSON_stringify (Boolean b) = Inr (Some (JBool b))"
| "JSON_stringify (Number n) = Inr (Some (case n of Fin r \<Rightarrow> JNum r | _ \<Rightarrow> JNull))"
| "JSON_stringify (Str s) = Inr (Some (JStr s))"
| "JSON_stringify (Array xs) =
     (case stringify_elems xs of Inl e \<Rightarrow> Inl e | Inr js \<Rightarrow> Inr (Some (JArr js)))"
| "JSON_stringify (Object c ps) =
     (case stringify_props ps of Inl e \<Rightarrow> Inl e | Inr ms \<Rightarrow> Inr (Some (JObj ms)))"
| "JSON_stringify (DateObj d) = Inr (Some (JStr (toISOString d)))"
| "JSON_stringify (MarkerObj m) = Inl (TypeError ''Converting circular structure to JSON'')"
| "stringify_elems [] = Inr []"
| "stringify_elems (x # xs) =
     (case JSON_stringify x of
        Inl e \<Rightarrow> Inl e
      | Inr r \<Rightarrow>
          (case stringify_elems xs of
             Inl e \<Rightarrow> Inl e
           | Inr js \<Rightarrow> Inr ((case r of None \<Rightarrow> JNull | Some j \<Rightarrow> j) # js)))"
| "stringify_props [] = Inr []"
| "stringify_props ((k, v) # ps) =
     (case JSON_stringify v of
        Inl e \<Rightarrow> Inl e
      | Inr r \<Rightarrow>
          (case stringify_props ps of
             Inl e \<Rightarrow> Inl e
           | Inr ms \<Rightarrow> Inr ((case r of None \<Rightarrow> [] | Some j \<Rightarrow> [(k, j)]) @ ms)))"

text \<open>The value \<open>JSON.parse\<close> builds from a tree: plain objects and arrays.\<close>

fun revive :: "json \<Rightarrow> jsval"
  and revive_elems :: "json list \<Rightarrow> jsval list"
  and revive_members :: "(string \<times> json) list \<Rightarrow> (string \<times> jsval) list"
where
  "revive JNull = Null"
| "revive (JBool b) = Boolean b"
| "revive (JNum r) = Number (Fin r)"
| "revive (JStr s) = Str s"
| "revive (JArr js) = Array (revive_elems js)"
| "revive (JObj ms) = Object None (revive_members ms)"
| "revive_elems [] = []"
| "revive_elems (j # js) = revive j # revive_elems js"
| "revive_members [] = []"
| "revive_members ((k, j) # ms) = (k, revive j) # revive_members ms"

text \<open>
  A string kept in local storage, by what \<open>JSON.parse\<close> makes of it: the tree it denotes,
  or the characters of a text outside the grammar of JSON (the empty string is one).
\<close>

datatype stored = JSONText json | NotJSON string

fun JSON_parse :: "stored \<Rightarrow> error + jsval" where
  "JSON_parse (JSONText j) = Inr (revive j)"
| "JSON_parse (NotJSON s) = Inl SyntaxError"

section \<open>The application\<close>

text \<open>An entry of the list: the \<open>li\<close> node and the workout whose fields its HTML shows.\<close>

record li =
  node :: nat
  content :: jsval

text \<open>
  The private fields of \<open>App\<close> and what the program touches outside it. \<open>map'\<close> is
  \<open>#map\<close>: undefined until the position arrives, then the markers on the map, by layer
  number. \<open>mapEvent\<close> is the \<open>latlng\<close> of the last click on the map. \<open>storage\<close> is the item
  \<open>'workouts'\<close> of local storage, \<open>list_view\<close> the entries after the form in document
  order, \<open>alerts\<close> the messages shown, and \<open>fresh\<close> numbers the nodes and layers created.
\<close>

record state =
  map' :: "nat list option"
  mapEvent :: "(jsnum \<times> jsnum) option"
  workouts :: jsval
  storage :: "stored option"
  list_view :: "li list"
  form_hidden :: bool
  alerts :: "string list"
  fresh :: nat

text \<open>
  A method returns normally (\<open>Inr\<close>) or raises (\<open>Inl\<close>), and leaves a state either way.
  The leading underscore of the method names is dropped.
\<close>

type_synonym 'a result = "(error + 'a) \<times> state"

text \<open>
  \<open>_showForm\<close> keeps the event of the click and shows the form; \<open>_hideForm\<close> hides
  the form (it also empties the four inputs, which are arguments here, not state).
\<close>

definition showForm :: "jsnum \<times> jsnum \<Rightarrow> state \<Rightarrow> state" where
  "showForm latlng st = st\<lparr>mapEvent := Some latlng, form_hidden := False\<rparr>"

definition hideForm :: "state \<Rightarrow> state" where
  "hideForm st = st\<lparr>form_hidden := True\<rparr>"

text \<open>\<open>_setLocalStorage\<close>; \<open>setItem\<close> stores the text \<open>undefined\<close> when there is none.\<close>

definition setLocalStorage :: "state \<Rightarrow> unit result" where
  "setLocalStorage st =
     (case JSON_stringify (workouts st) of
        Inl e \<Rightarrow> (Inl e, st)
      | Inr None \<Rightarrow> (Inr (), st\<lparr>storage := Some (NotJSON ''undefined'')\<rparr>)
      | Inr (Some j) \<Rightarrow> (Inr (), st\<lparr>storage := Some (JSONText j)\<rparr>))"

text \<open>
  \<open>_renderWorkoutMarker\<close>: a new marker is added to the map and stored in the workout.
  The result is the workout as updated; the callers hold the same object in the array,
  so they write it back there. What Leaflet makes of the coordinates is not modelled.
\<close>

definition renderWorkoutMarker :: "jsval \<Rightarrow> state \<Rightarrow> jsval result" where
  "renderWorkoutMarker workout st =
     (case get workout ''coords'' of
        Inl e \<Rightarrow> (Inl e, st)
      | Inr c \<Rightarrow>
          (case map' st of
             None \<Rightarrow> (Inl (TypeError ''Cannot read properties of undefined (addLayer)''), st)
           | Some layers \<Rightarrow>
               (let st' = st\<lparr>map' := Some (layers @ [fresh st]), fresh := Suc (fresh st)\<rparr>
                in (set_prop workout ''marker'' (MarkerObj (fresh st)), st'))))"

fun is_Number :: "jsval \<Rightarrow> bool" where
  "is_Number (Number n) = True"
| "is_Number v = False"

text \<open>
  \<open>_renderWorkout\<close>: the entry is inserted right after the form, so first in the list.
  \<open>toFixed\<close> is a method of Numbers only.
\<close>

definition renderWorkout :: "jsval \<Rightarrow> state \<Rightarrow> unit result" where
  "renderWorkout workout st =
     (case get workout ''type'' of
        Inl e \<Rightarrow> (Inl e, st)
      | Inr t \<Rightarrow>
          if t = Str ''running'' \<and> \<not> is_Number (read_prop workout ''pace'')
          then (Inl (TypeError ''toFixed is not a function''), st)
          else if t = Str ''cycling'' \<and> \<not> is_Number (read_prop workout ''speed'')
          then (Inl (TypeError ''toFixed is not a function''), st)
          else (Inr (), st\<lparr>list_view := \<lparr>node = fresh st, content = workout\<rparr> # list_view st,
                            fresh := Suc (fresh st)\<rparr>))"

text \<open>The two \<open>forEach\<close> loops; an exception ends the loop where it is raised.\<close>

fun forEach_renderWorkoutMarker :: "jsval list \<Rightarrow> state \<Rightarrow> (error option \<times> jsval list) \<times> state"
where
  "forEach_renderWorkoutMarker [] st = ((None, []), st)"
| "forEach_renderWorkoutMarker (w # ws) st =
     (case renderWorkoutMarker w st of
        (Inl e, st') \<Rightarrow> ((Some e, w # ws), st')
      | (Inr w', st') \<Rightarrow>
          (case forEach_renderWorkoutMarker ws st' of
             ((r, ws'), st'') \<Rightarrow> ((r, w' # ws'), st'')))"

fun forEach_renderWorkout :: "jsval list \<Rightarrow> state \<Rightarrow> unit result" where
  "forEach_renderWorkout [] st = (Inr (), st)"
| "forEach_renderWorkout (w # ws) st =
     (case renderWorkout w st of
        (Inl e, st') \<Rightarrow> (Inl e, st')
      | (Inr u, st') \<Rightarrow> forEach_renderWorkout ws st')"

text \<open>\<open>_loadMap\<close>, called once, when the position arrives.\<close>

definition loadMap :: "state \<Rightarrow> unit result" where
  "loadMap st =
     (let st1 = st\<lparr>map' := Some []\<rparr> in
      case workouts st1 of
        Array ws \<Rightarrow>
          (case forEach_renderWorkoutMarker ws st1 of
             ((r, ws'), st2) \<Rightarrow>
               ((case r of None \<Rightarrow> Inr () | Some e \<Rightarrow> Inl e), st2\<lparr>workouts := Array ws'\<rparr>))
      | _ \<Rightarrow> (Inl (TypeError ''forEach is not a function''), st1))"

text \<open>
  \<open>_getLocalStorage\<close>. \<open>getItem\<close> gives \<open>null\<close> when the item is missing, and
  \<open>JSON.parse(null)\<close> is \<open>null\<close>.
\<close>

definition getLocalStorage :: "state \<Rightarrow> unit result" where
  "getLocalStorage st =
     (case (case storage st of None \<Rightarrow> Inr Null | Some t \<Rightarrow> JSON_parse t) of
        Inl e \<Rightarrow> (Inl e, st)
      | Inr workoutData \<Rightarrow>
          if falsy workoutData then (Inr (), st)
          else
            (let st1 = st\<lparr>workouts := workoutData\<rparr> in
             case workoutData of
               Array ws \<Rightarrow> forEach_renderWorkout ws st1
             | _ \<Rightarrow> (Inl (TypeError ''forEach is not a function''), st1)))"

text \<open>The state in which the constructor of \<open>App\<close> calls \<open>_getLocalStorage\<close>.\<close>

definition App_fields :: "stored option \<Rightarrow> state" where
  "App_fields item =
     \<lparr>map' = None, mapEvent = None, workouts = Array [], storage = item, list_view = [],
      form_hidden = True, alerts = [], fresh = 0\<rparr>"

text \<open>\<open>_findWorkout\<close>, with the \<open>data-id\<close> of the element.\<close>

fun find_id :: "jsval list \<Rightarrow> string \<Rightarrow> error + jsval" where
  "find_id [] s = Inr Undefined"
| "find_id (w # ws) s =
     (case get w ''id'' of
        Inl e \<Rightarrow> Inl e
      | Inr v \<Rightarrow> if v = Str s then Inr w else find_id ws s)"

definition findWorkout :: "state \<Rightarrow> string \<Rightarrow> error + jsval" where
  "findWorkout st s =
     (case workouts st of
        Array ws \<Rightarrow> find_id ws s
      | _ \<Rightarrow> Inl (TypeError ''find is not a function''))"

text \<open>
  \<open>indexOf\<close> compares objects by identity. The object it is given is the first one in the
  array with the \<open>id\<close> looked for, and an equal value has the same \<open>id\<close>, so the first
  equal value is that object.
\<close>

fun indexOf :: "jsval list \<Rightarrow> jsval \<Rightarrow> int" where
  "indexOf [] v = - 1"
| "indexOf (x # xs) v =
     (if x = v then 0 else (let i = indexOf xs v in if i = - 1 then - 1 else i + 1))"

definition splice1 :: "nat \<Rightarrow> 'a list \<Rightarrow> 'a list" where
  "splice1 i xs = take i xs @ drop (Suc i) xs"

text \<open>
  \<open>_removeWorkout\<close>. The event is given by what the handler reads of it: the element
  \<open>e.target.closest('.workout')\<close>, if there is one, as its node and its \<open>data-id\<close>.
\<close>

definition removeWorkout :: "(nat \<times> string) option \<Rightarrow> state \<Rightarrow> unit result" where
  "removeWorkout e st =
     (case e of
        None \<Rightarrow> (Inr (), st\<lparr>alerts := alerts st @ [''Some error! Cannot find an item'']\<rparr>)
      | Some (el, data_id) \<Rightarrow>
          (case findWorkout st data_id of
             Inl err \<Rightarrow> (Inl err, st)
           | Inr workout \<Rightarrow>
               if falsy workout then (Inr (), st)
               else
                 (case workouts st of
                    Array ws \<Rightarrow>
                      (let index = indexOf ws workout in
                       if index > - 1 then
                         (let st1 = st\<lparr>workouts := Array (splice1 (nat index) ws)\<rparr>;
                              st2 = st1\<lparr>list_view := filter (\<lambda>l. node l \<noteq> el) (list_view st1)\<rparr>
                          in case read_prop workout ''marker'' of
                               MarkerObj m \<Rightarrow>
                                 setLocalStorage
                                   (st2\<lparr>map' := map_option (filter (\<lambda>x. x \<noteq> m)) (map' st2)\<rparr>)
                             | _ \<Rightarrow> (Inl (TypeError ''Cannot read properties (remove)''), st2))
                       else (Inr (), st))
                  | _ \<Rightarrow> (Inl (TypeError ''indexOf is not a function''), st))))"

text \<open>
  The form as \<open>_newWorkout\<close> reads it: the type, and the Numbers that the unary \<open>+\<close>
  makes of the four text fields.
\<close>

record form =
  inputType :: string
  inputDistance :: jsnum
  inputDuration :: jsnum
  inputCadence :: jsnum
  inputElevation :: jsnum

definition validInputs :: "jsnum list \<Rightarrow> bool" where
  "validInputs inputs = list_all isFinite inputs"

definition isPositiveInputs :: "jsnum list \<Rightarrow> bool" where
  "isPositiveInputs inputs = list_all gt0 inputs"

definition alert_inputs :: "state \<Rightarrow> unit result" where
  "alert_inputs st = (Inr (), st\<lparr>alerts := alerts st @ [''Inputs have to be a positive number!'']\<rparr>)"

text \<open>
  The second half of \<open>_newWorkout\<close>, from the \<open>push\<close> on. The pushed object is the last
  element of the array, so the marker stored in it shows there.
\<close>

definition addWorkout :: "jsval \<Rightarrow> state \<Rightarrow> unit result" where
  "addWorkout workout st =
     (case workouts st of
        Array ws \<Rightarrow>
          (let st1 = st\<lparr>workouts := Array (ws @ [workout])\<rparr> in
           case renderWorkoutMarker workout st1 of
             (Inl e, st2) \<Rightarrow> (Inl e, st2)
           | (Inr workout', st2) \<Rightarrow>
               (let st3 = st2\<lparr>workouts := Array (ws @ [workout'])\<rparr> in
                case renderWorkout workout' st3 of
                  (Inl e, st4) \<Rightarrow> (Inl e, st4)
                | (Inr u, st4) \<Rightarrow> setLocalStorage (hideForm st4)))
      | _ \<Rightarrow> (Inl (TypeError ''push is not a function''), st))"

text \<open>
  \<open>_newWorkout\<close>; \<open>d\<close> and \<open>now\<close> are the clock readings a constructor takes. The
  two tests of the type exclude each other; with a type that is neither, \<open>workout\<close>
  stays \<open>undefined\<close>.
\<close>

definition newWorkout :: "form \<Rightarrow> jsdate \<Rightarrow> int \<Rightarrow> state \<Rightarrow> unit result" where
  "newWorkout f d now st =
     (let type = inputType f; distance = inputDistance f; duration = inputDuration f in
      case mapEvent st of
        None \<Rightarrow> (Inl (TypeError ''Cannot read properties of undefined (latlng)''), st)
      | Some latlng \<Rightarrow>
          if type = ''running'' then
            (let cadence = inputCadence f in
             if \<not> validInputs [distance, duration, cadence] \<or>
                \<not> isPositiveInputs [distance, duration, cadence]
             then alert_inputs st
             else addWorkout (to_object (Running_new d now latlng distance duration cadence)) st)
          else if type = ''cycling'' then
            (let elevationGain = inputElevation f in
             if \<not> validInputs [distance, duration, elevationGain] \<or>
                \<not> isPositiveInputs [distance, duration]
             then alert_inputs st
             else addWorkout
                    (to_object (Cycling_new d now latlng distance duration elevationGain)) st)
          else addWorkout Undefined st)"

section \<open>Notions used in the statements\<close>

text \<open>A Number that is finite and strictly positive.\<close>

fun finite_positive :: "jsnum \<Rightarrow> bool" where
  "finite_positive (Fin r) = (0 < r)"
| "finite_positive n = False"

text \<open>The elements of an array.\<close>

fun elements :: "jsval \<Rightarrow> jsval list" where
  "elements (Array ws) = ws"
| "elements v = []"

text \<open>The \<open>id\<close> of every element of an array, in order.\<close>

fun ids_of :: "jsval \<Rightarrow> jsval list" where
  "ids_of (Array ws) = map (\<lambda>w. read_prop w ''id'') ws"
| "ids_of v = []"

text \<open>The class of an object: \<open>None\<close> for a plain object and for what is no object.\<close>

fun class_of :: "jsval \<Rightarrow> kind option" where
  "class_of (Object c ps) = c"
| "class_of v = None"

text \<open>
  A record that the save can write and the list can show again: no marker stored in it,
  its numbers finite, and the derived number of its kind present.
\<close>

definition storable :: "workout \<Rightarrow> bool" where
  "storable w \<longleftrightarrow>
     marker w = None \<and> isFinite (fst (coords w)) \<and> isFinite (snd (coords w)) \<and>
     isFinite (distance w) \<and> isFinite (duration w) \<and>
     (case cadence w of None \<Rightarrow> True | Some n \<Rightarrow> isFinite n) \<and>
     (case pace w of None \<Rightarrow> cls w \<noteq> RunningC | Some n \<Rightarrow> isFinite n) \<and>
     (case elevationGain w of None \<Rightarrow> True | Some n \<Rightarrow> isFinite n) \<and>
     (case speed w of None \<Rightarrow> cls w \<noteq> CyclingC | Some n \<Rightarrow> isFinite n)"

text \<open>The number a string of decimal digits denotes (a character that is no digit counts 0).\<close>

definition digit_val :: "char \<Rightarrow> nat" where
  "digit_val c =
     (case map_of (zip ''0123456789'' [0, 1, 2, 3, 4, 5, 6, 7, 8, 9]) c of
        Some d \<Rightarrow> d
      | None \<Rightarrow> 0)"

definition digits_val :: "string \<Rightarrow> nat" where
  "digits_val s = foldl (\<lambda>a c. 10 * a + digit_val c) 0 s"

section \<open>Example inputs\<close>

text \<open>A date on March 3, a click on the map, and a form of each kind.\<close>

definition march3 :: jsdate where
  "march3 = \<lparr>getMonth = 2, getDate = 3, toISOString = ''2026-03-03T09:30:00.000Z''\<rparr>"

definition click :: "jsnum \<times> jsnum" where
  "click = (Fin 52, Fin 13)"

definition run_form :: form where
  "run_form = \<lparr>inputType = ''running'', inputDistance = Fin 5, inputDuration = Fin 25,
     inputCadence = Fin 178, inputElevation = Fin 0\<rparr>"

definition cyc_form :: form where
  "cyc_form = \<lparr>inputType = ''cycling'', inputDistance = Fin 20, inputDuration = Fin 60,
     inputCadence = Fin 0, inputElevation = Fin (- 300)\<rparr>"

text \<open>The application once the map is loaded and has been clicked, with nothing stored.\<close>

definition ready :: state where
  "ready = showForm click (snd (loadMap (App_fields None)))"

text \<open>The same after a running workout has been added at the click.\<close>

definition one_added :: state where
  "one_added = snd (newWorkout run_form march3 1762153200123 ready)"

text \<open>The same after a cycling workout has been added a millisecond later.\<close>

definition two_added :: state where
  "two_added = snd (newWorkout cyc_form march3 1762153200124 one_added)"

text \<open>
  The text of one running workout in local storage, and the application that has read
  it at its start, before any position has arrived.
\<close>

definition one_saved :: json where
  "one_saved =
     JArr [JObj [(''date'', JStr ''2026-03-03T09:30:00.000Z''), (''id'', JStr ''2153200123''),
       (''coords'', JArr [JNum 52, JNum 13]), (''distance'', JNum 5), (''duration'', JNum 25),
       (''type'', JStr ''running''), (''cadence'', JNum 178), (''pace'', JNum 5),
       (''description'', JStr ''Running on March 3'')]]"

definition one_restored :: state where
  "one_restored = snd (getLocalStorage (App_fields (Some (JSONText one_saved))))"

section \<open>Auxiliary facts\<close>

subsection \<open>Rounding to a double\<close>

lemma rne_int [simp]: "rne (of_int n) = n"
  by (simp add: rne_def)

lemma rne_near: "\<bar>of_int (rne q) - q\<bar> \<le> 1 / 2"
  unfolding rne_def Let_def by (auto simp: abs_if) linarith+

lemma floor_log2:
  assumes "2 powi k \<le> x" and "x < 2 powi (k + 1)"
  shows "\<lfloor>log 2 x\<rfloor> = k"
proof -
  have "0 < (2::real) powi k" by simp
  with assms(1) have x: "0 < x" by linarith
  have a: "(2::real) powr (of_int k) = 2 powi k"
    by (rule powr_real_of_int') simp_all
  have "(2::real) powr (of_int (k + 1)) = 2 powi (k + 1)"
    by (rule powr_real_of_int') simp_all
  then have b: "(2::real) powr (of_int k + 1) = 2 powi (k + 1)" by simp
  from assms have "2 powr (of_int k) \<le> x" "x < 2 powr (of_int k + 1)"
    unfolding a b by simp_all
  then show ?thesis
    using floor_log_eq_powr_iff [of x 2 k] x by simp
qed

lemma ulp_exp_eq:
  assumes "2 powi k \<le> \<bar>x\<bar>" and "\<bar>x\<bar> < 2 powi (k + 1)"
  shows "ulp_exp x = max k (- 1022) - 52"
  using floor_log2 [OF assms] by (simp add: ulp_exp_def)

lemma to_double_exact:
  assumes "x = of_int n * 2 powi ulp_exp x" and "\<bar>x\<bar> < overflow"
  shows "to_double x = Fin x"
proof (cases "x = 0")
  case True
  then show ?thesis by (simp add: to_double_def)
next
  case False
  have "x / 2 powi ulp_exp x = of_int n"
    using assms(1) by (metis nonzero_mult_div_cancel_right power_int_eq_0_iff zero_neq_numeral)
  then show ?thesis
    using False assms by (simp add: to_double_def Let_def)
qed

lemma to_double_near:
  assumes "to_double x = Fin r"
  shows "\<bar>r - x\<bar> \<le> 2 powi ulp_exp x / 2"
proof (cases "x = 0")
  case True
  with assms show ?thesis by (simp add: to_double_def)
next
  case False
  let ?u = "(2::real) powi ulp_exp x"
  have u: "0 < ?u" by simp
  from assms False have r: "r = of_int (rne (x / ?u)) * ?u"
    by (auto simp: to_double_def Let_def split: if_splits)
  have "r - x = (of_int (rne (x / ?u)) - x / ?u) * ?u"
    using u by (simp add: r field_simps)
  then have "\<bar>r - x\<bar> = \<bar>of_int (rne (x / ?u)) - x / ?u\<bar> * ?u"
    using u by (simp add: abs_mult)
  also have "\<dots> \<le> 1 / 2 * ?u"
    using rne_near [of "x / ?u"] u by (intro mult_right_mono) simp_all
  finally show ?thesis by simp
qed

lemma to_double_5: "to_double 5 = Fin 5"
proof -
  have e: "ulp_exp 5 = - 50"
    using ulp_exp_eq [of 2 5] by simp
  have "(5::real) = of_int (5 * 2 ^ 50) * 2 powi ulp_exp 5"
    unfolding e by (simp add: power_int_minus)
  then show ?thesis by (rule to_double_exact) (simp add: overflow_def)
qed


lemma rne_lower: "of_int m \<le> q \<Longrightarrow> m \<le> rne q"
  unfolding rne_def Let_def by (auto simp: le_floor_iff; linarith)

lemma rne_upper: "q \<le> of_int m \<Longrightarrow> rne q \<le> m"
  unfolding rne_def Let_def by (auto simp: floor_le_iff; linarith)

lemma to_double_eval:
  assumes "2 powi k \<le> \<bar>x\<bar>" and "\<bar>x\<bar> < 2 powi (k + 1)" and "- 1022 \<le> k"
  shows "to_double x =
     (let r = of_int (rne (x / 2 powi (k - 52))) * 2 powi (k - 52) in
      if overflow \<le> \<bar>r\<bar> then (if 0 < x then PosInf else NegInf) else Fin r)"
proof -
  have "0 < (2::real) powi k" by simp
  with assms(1) have "0 < \<bar>x\<bar>" by linarith
  then have "x \<noteq> 0" by simp
  moreover have "ulp_exp x = k - 52"
    using ulp_exp_eq [OF assms(1,2)] assms(3) by simp
  ultimately show ?thesis by (simp add: to_double_def Let_def)
qed

lemma to_double_third: "to_double (1 / 3) = Fin (6004799503160661 / 18014398509481984)"
  using to_double_eval [of "- 2" "1 / 3"]
  by (simp add: power_int_minus rne_def Let_def overflow_def)

lemma to_double_overflow:
  assumes "overflow \<le> \<bar>x\<bar>"
  shows "to_double x = (if 0 < x then PosInf else NegInf)"
proof -
  define k where "k = \<lfloor>log 2 \<bar>x\<bar>\<rfloor>"
  have "0 < overflow" by (simp add: overflow_def)
  with assms have x: "0 < \<bar>x\<bar>" by linarith
  then have "2 powr (of_int k) \<le> \<bar>x\<bar>" and "\<bar>x\<bar> < 2 powr (of_int k + 1)"
    using floor_log_eq_powr_iff [of "\<bar>x\<bar>" 2 k] by (simp_all add: k_def)
  moreover have "(2::real) powr (of_int k) = 2 powi k"
    by (rule powr_real_of_int') simp_all
  moreover have "(2::real) powr (of_int (k + 1)) = 2 powi (k + 1)"
    by (rule powr_real_of_int') simp_all
  ultimately have lo: "2 powi k \<le> \<bar>x\<bar>" and hi: "\<bar>x\<bar> < 2 powi (k + 1)" by simp_all
  have k: "1024 \<le> k"
  proof (rule ccontr)
    assume "\<not> 1024 \<le> k"
    then have "k + 1 \<le> 1024" by simp
    then have "(2::real) powi (k + 1) \<le> 2 powi 1024"
      by (rule power_int_increasing) simp
    with hi assms show False unfolding overflow_def by linarith
  qed
  then have u: "ulp_exp x = k - 52" by (simp add: ulp_exp_def k_def)
  let ?u = "(2::real) powi (k - 52)"
  have up: "0 < ?u" by (rule zero_less_power_int) simp
  have s: "?u * 2 ^ 52 = 2 powi k"
    by (simp add: power_int_diff)
  have "2 ^ 52 \<le> \<bar>x\<bar> / ?u"
    using lo up s by (simp add: pos_le_divide_eq mult.commute)
  then have q: "2 ^ 52 \<le> \<bar>x / ?u\<bar>" using up by simp
  have "2 ^ 52 \<le> \<bar>rne (x / ?u)\<bar>"
  proof (cases "0 \<le> x / ?u")
    case True
    with q have "of_int (2 ^ 52) \<le> x / ?u" by simp
    from rne_lower [OF this] show ?thesis by simp
  next
    case False
    with q have "x / ?u \<le> of_int (- (2 ^ 52))" by simp
    from rne_upper [OF this] show ?thesis by simp
  qed
  then have "of_int (2 ^ 52) \<le> (of_int \<bar>rne (x / ?u)\<bar> :: real)"
    by (simp only: of_int_le_iff)
  then have "(2::real) ^ 52 \<le> \<bar>of_int (rne (x / ?u))\<bar>" by simp
  then have m: "2 ^ 52 * ?u \<le> \<bar>of_int (rne (x / ?u))\<bar> * ?u"
    using up by (intro mult_right_mono) simp_all
  have "2 powi k = 2 ^ 52 * ?u"
    using s by (simp only: mult.commute)
  also note m
  also have "\<bar>of_int (rne (x / ?u))\<bar> * ?u = \<bar>of_int (rne (x / ?u)) * ?u\<bar>"
    using up by (simp only: abs_mult abs_of_pos)
  finally have "2 powi k \<le> \<bar>of_int (rne (x / ?u)) * ?u\<bar>" .
  moreover have "(2::real) powi 1024 \<le> 2 powi k"
    using k by (rule power_int_increasing) simp
  ultimately have "overflow \<le> \<bar>of_int (rne (x / ?u)) * ?u\<bar>"
    unfolding overflow_def by linarith
  moreover have "x \<noteq> 0" using x by simp
  ultimately show ?thesis by (simp only: to_double_def u Let_def if_False if_True)
qed

lemma to_double_1: "to_double 1 = Fin 1"
proof -
  have e: "ulp_exp 1 = - 52"
    using ulp_exp_eq [of 0 1] by simp
  have "(1::real) = of_int (2 ^ 52) * 2 powi ulp_exp 1"
    unfolding e by (simp add: power_int_minus)
  then show ?thesis by (rule to_double_exact) (simp add: overflow_def)
qed

lemma to_double_20: "to_double 20 = Fin 20"
proof -
  have e: "ulp_exp 20 = - 48"
    using ulp_exp_eq [of 4 20] by simp
  have "(20::real) = of_int (20 * 2 ^ 48) * 2 powi ulp_exp 20"
    unfolding e by (simp add: power_int_minus)
  then show ?thesis by (rule to_double_exact) (simp add: overflow_def)
qed

lemma to_double_sixtieth: "to_double (1 / 60) = Fin (4803839602528529 / 288230376151711744)"
  using to_double_eval [of "- 6" "1 / 60"]
  by (simp add: power_int_minus rne_def Let_def overflow_def)

lemmas to_double_examples = to_double_1 to_double_5 to_double_20

subsection \<open>Evaluation\<close>

lemmas ctor_defs = Running_new_def Cycling_new_def Running_fields_def Cycling_fields_def
  setDescription_def calcPace_def calcSpeed_def type'_def toUpperCase_def upper_char_def
  months_def Let_def

lemmas object_defs = to_object_def own_props_def kind_props_def

lemmas app_defs = newWorkout_def addWorkout_def renderWorkoutMarker_def renderWorkout_def
  setLocalStorage_def hideForm_def alert_inputs_def validInputs_def isPositiveInputs_def
  get_def

lemmas example_defs = march3_def click_def run_form_def cyc_form_def

lemmas eval_defs = example_defs app_defs ctor_defs object_defs digits_of.simps digit_char_def
  to_double_examples

lemma ready_eq:
  "ready = \<lparr>map' = Some [], mapEvent = Some click, workouts = Array [], storage = None,
     list_view = [], form_hidden = False, alerts = [], fresh = 0\<rparr>"
  by (simp add: ready_def showForm_def loadMap_def App_fields_def)

subsection \<open>Decimal digits\<close>

lemma digit_val_less: "digit_val c < 10"
  by (simp add: digit_val_def)

lemma digit_val_digit_char: "d < 10 \<Longrightarrow> digit_val (digit_char d) = d"
proof -
  assume "d < 10"
  then have "d \<in> {0, 1, 2, 3, 4, 5, 6, 7, 8, 9}" by auto
  then show ?thesis by (auto simp: digit_val_def digit_char_def)
qed

lemma digits_val_snoc: "digits_val (s @ [c]) = 10 * digits_val s + digit_val c"
  by (simp add: digits_val_def)

lemma digits_val_digits_of: "digits_val (digits_of n) = n"
proof (induction n rule: digits_of.induct)
  case (1 n)
  show ?case
  proof (cases "n < 10")
    case True
    then show ?thesis
      by (simp add: digits_of.simps [of n] digits_val_def digit_val_digit_char)
  next
    case False
    with 1 show ?thesis
      by (simp add: digits_of.simps [of n] digits_val_snoc digit_val_digit_char)
  qed
qed

lemma mod_pow10_step:
  fixes a d k :: nat
  assumes "d < 10"
  shows "(10 * a + d) mod 10 ^ Suc k = 10 * (a mod 10 ^ k) + d"
proof -
  have "(10 * a + d) mod (10 * 10 ^ k) =
        10 * (((10 * a + d) div 10) mod 10 ^ k) + (10 * a + d) mod 10"
    by (simp add: mod_mult2_eq)
  then show ?thesis using assms by simp
qed

text \<open>The last \<open>k\<close> digits of a numeral denote the number modulo \<open>10 ^ k\<close>.\<close>

lemma digits_val_last: "digits_val (drop (length s - k) s) = digits_val s mod 10 ^ k"
proof (induction s arbitrary: k rule: rev_induct)
  case Nil
  show ?case by (simp add: digits_val_def)
next
  case (snoc c s)
  show ?case
  proof (cases k)
    case 0
    then show ?thesis by (simp add: digits_val_def)
  next
    case (Suc j)
    have "drop (length (s @ [c]) - k) (s @ [c]) = drop (length s - j) s @ [c]"
      using Suc by simp
    then show ?thesis
      using snoc [of j] Suc
      by (simp add: digits_val_snoc mod_pow10_step digit_val_less del: power_Suc)
  qed
qed

lemma Workout_id_val: "0 \<le> t \<Longrightarrow> digits_val (Workout_id t) = nat t mod 10 ^ 10"
  by (simp add: Workout_id_def slice_last_def int_to_string_def digits_val_last
      digits_val_digits_of)

lemma Workout_id_differ:
  assumes "0 \<le> t1" "0 \<le> t2" "t1 mod 10 ^ 10 \<noteq> t2 mod 10 ^ 10"
  shows "Workout_id t1 \<noteq> Workout_id t2"
proof
  assume "Workout_id t1 = Workout_id t2"
  then have "nat t1 mod 10 ^ 10 = nat t2 mod 10 ^ 10"
    using assms(1,2) Workout_id_val by metis
  then have "int (nat t1 mod 10 ^ 10) = int (nat t2 mod 10 ^ 10)" by simp
  then have "t1 mod 10 ^ 10 = t2 mod 10 ^ 10"
    using assms(1,2) by (simp add: zmod_int)
  with assms(3) show False by simp
qed

lemma Workout_id_example: "Workout_id 1762153200123 = ''2153200123''"
  by (simp add: Workout_id_def slice_last_def int_to_string_def digits_of.simps digit_char_def)

lemma Workout_id_example2: "Workout_id 1762153200124 = ''2153200124''"
  by (simp add: Workout_id_def slice_last_def int_to_string_def digits_of.simps digit_char_def)

lemma id'_Running_new [simp]: "id' (Running_new d now crds dis dur cad) = Workout_id now"
  by (simp add: ctor_defs)

lemma id'_Cycling_new [simp]: "id' (Cycling_new d now crds dis dur elev) = Workout_id now"
  by (simp add: ctor_defs)

subsection \<open>Properties of objects\<close>

lemma map_of_put: "map_of (put k v ps) = (map_of ps)(k \<mapsto> v)"
  by (induction ps) auto

lemma read_prop_put_other:
  "p \<noteq> k \<Longrightarrow> read_prop (Object c (put k v ps)) p = read_prop (Object c ps) p"
  by (simp add: map_of_put)

lemma read_prop_put_same: "read_prop (Object c (put k v ps)) k = v"
  by (simp add: map_of_put)

lemma map_of_opt_prop:
  "map_of (opt_prop k f x) p = (if p = k then map_option f x else None)"
  by (cases x) simp_all

lemma read_prop_id [simp]: "read_prop (to_object w) ''id'' = Str (id' w)"
  by (simp add: object_defs)

lemma read_prop_description [simp]:
  "read_prop (to_object w) ''description'' =
     (case description w of None \<Rightarrow> Undefined | Some s \<Rightarrow> Str s)"
  by (cases "description w") (simp_all add: object_defs map_of_opt_prop map_add_def)

text \<open>What \<open>_renderWorkoutMarker\<close> returns for an object, when it returns.\<close>

lemma renderWorkoutMarker_Object:
  assumes "renderWorkoutMarker (Object c ps) st = (Inr o', st')"
  shows "o' = Object c (put ''marker'' (MarkerObj (fresh st)) ps)"
  using assms by (auto simp: renderWorkoutMarker_def get_def Let_def split: option.splits)

lemma renderWorkoutMarker_keeps:
  assumes "renderWorkoutMarker (to_object w) st = (Inr o', st')" and "p \<noteq> ''marker''"
  shows "read_prop o' p = read_prop (to_object w) p"
  using renderWorkoutMarker_Object [of "Some (cls w)" "own_props w" st o' st'] assms
  by (simp add: to_object_def read_prop_put_other del: read_prop.simps)

section \<open>The metric calculators\<close>

text \<open>
  C8, as amended. For a record whose distance and duration are finite and positive,
  \<open>calcPace\<close> returns what \<open>/\<close> gives for duration by distance, and \<open>calcSpeed\<close> what it
  gives for distance by the quotient of duration by 60: each division rounds the real
  quotient to a double, and the calculators round no further. So the pace returned is
  within half a unit in the last place of the real quotient, and is that quotient when
  it is a double. Each calculator also stores the value it returns in the record, in
  \<open>pace\<close> and in \<open>speed\<close>, and changes nothing else of it.
\<close>

theorem calculators_round_and_store:
  "0 < dk \<Longrightarrow> 0 < tm \<Longrightarrow> distance w = Fin dk \<Longrightarrow> duration w = Fin tm \<Longrightarrow>
     calcPace w = (to_double (tm / dk), w\<lparr>pace := Some (to_double (tm / dk))\<rparr>) \<and>
     calcSpeed w =
       (js_div (Fin dk) (to_double (tm / 60)),
        w\<lparr>speed := Some (js_div (Fin dk) (to_double (tm / 60)))\<rparr>) \<and>
     (fst (calcPace w) = Fin r \<longrightarrow> \<bar>r - tm / dk\<bar> \<le> 2 powi ulp_exp (tm / dk) / 2) \<and>
     (tm / dk = of_int n * 2 powi ulp_exp (tm / dk) \<and> tm / dk < overflow \<longrightarrow>
        fst (calcPace w) = Fin (tm / dk))"
proof -
  assume a: "0 < dk" "0 < tm" "distance w = Fin dk" "duration w = Fin tm"
  have p: "calcPace w = (to_double (tm / dk), w\<lparr>pace := Some (to_double (tm / dk))\<rparr>)"
    using a by (simp add: calcPace_def Let_def)
  have s: "calcSpeed w =
       (js_div (Fin dk) (to_double (tm / 60)),
        w\<lparr>speed := Some (js_div (Fin dk) (to_double (tm / 60)))\<rparr>)"
    using a by (simp add: calcSpeed_def Let_def)
  have "\<bar>r - tm / dk\<bar> \<le> 2 powi ulp_exp (tm / dk) / 2" if "fst (calcPace w) = Fin r"
    using that to_double_near [of "tm / dk" r] by (simp add: p)
  moreover have "fst (calcPace w) = Fin (tm / dk)"
    if "tm / dk = of_int n * 2 powi ulp_exp (tm / dk) \<and> tm / dk < overflow"
  proof -
    from a have "0 < tm / dk" by simp
    with that have "\<bar>tm / dk\<bar> < overflow" by (simp only: abs_of_pos)
    with that show ?thesis
      using to_double_exact [of "tm / dk" n] by (simp add: p)
  qed
  ultimately show ?thesis using p s by blast
qed

theorem calculators_round_and_store_witness:
  "calcPace (Running_fields march3 0 click (Fin 5) (Fin 25) (Fin 178)) =
     (Fin 5, (Running_fields march3 0 click (Fin 5) (Fin 25) (Fin 178))\<lparr>pace := Some (Fin 5)\<rparr>) \<and>
   calcSpeed (Cycling_fields march3 0 click (Fin 20) (Fin 60) (Fin 300)) =
     (Fin 20, (Cycling_fields march3 0 click (Fin 20) (Fin 60) (Fin 300))\<lparr>speed := Some (Fin 20)\<rparr>) \<and>
   fst (calcPace (Running_fields march3 0 click (Fin 3) (Fin 1) (Fin 178))) =
     Fin (6004799503160661 / 18014398509481984) \<and>
   \<bar>6004799503160661 / 18014398509481984 - 1 / 3\<bar> \<le> (2 powi (- 54) / 2 :: real)"
proof -
  let ?R = "Running_fields march3 0 click (Fin 5) (Fin 25) (Fin 178)"
  let ?C = "Cycling_fields march3 0 click (Fin 20) (Fin 60) (Fin 300)"
  let ?T = "Running_fields march3 0 click (Fin 3) (Fin 1) (Fin 178)"
  have e: "ulp_exp 5 = - 50"
    using ulp_exp_eq [of 2 5] by simp
  have x: "(25::real) / 5 = of_int (5 * 2 ^ 50) * 2 powi ulp_exp (25 / 5) \<and> (25::real) / 5 < overflow"
    by (simp add: e power_int_minus overflow_def)
  have 1: "calcPace ?R = (Fin 5, ?R\<lparr>pace := Some (Fin 5)\<rparr>)"
    using calculators_round_and_store [of 5 25 ?R 5 "5 * 2 ^ 50"] x
    by (simp add: Running_fields_def to_double_5)
  have 2: "calcSpeed ?C = (Fin 20, ?C\<lparr>speed := Some (Fin 20)\<rparr>)"
    using calculators_round_and_store [of 20 60 ?C]
    by (simp add: Cycling_fields_def to_double_examples)
  have t: "ulp_exp (1 / 3) = - 54"
    using ulp_exp_eq [of "- 2" "1 / 3"] by (simp add: power_int_minus)
  have 3: "fst (calcPace ?T) = Fin (6004799503160661 / 18014398509481984)"
    using calculators_round_and_store [of 3 1 ?T]
    by (simp add: Running_fields_def to_double_third)
  have 4: "\<bar>6004799503160661 / 18014398509481984 - 1 / 3\<bar> \<le> (2 powi (- 54) / 2 :: real)"
    using calculators_round_and_store [of 3 1 ?T "6004799503160661 / 18014398509481984"] 3
    by (simp add: Running_fields_def t)
  show ?thesis using 1 2 3 4 by blast
qed

text \<open>
  C8 as stated fails twice. The calculators are not free of side effects: in the
  constructor, the record before the call has no pace (no speed), and the record after
  it has one. And what they return is not the real quotient: for a distance of 3 and a
  duration of 1 the pace is the double next to one third, and for a distance of
  \<open>2^1023\<close> and a duration of 1 the speed is \<open>Infinity\<close>.
\<close>

theorem calculators_counterexample:
  "snd (calcPace (Running_fields march3 0 click (Fin 5) (Fin 25) (Fin 178))) \<noteq>
     Running_fields march3 0 click (Fin 5) (Fin 25) (Fin 178) \<and>
   snd (calcSpeed (Cycling_fields march3 0 click (Fin 20) (Fin 60) (Fin 300))) \<noteq>
     Cycling_fields march3 0 click (Fin 20) (Fin 60) (Fin 300) \<and>
   fst (calcPace (Running_fields march3 0 click (Fin 3) (Fin 1) (Fin 178))) \<noteq> Fin (1 / 3) \<and>
   fst (calcSpeed (Cycling_fields march3 0 click (Fin (2 ^ 1023)) (Fin 1) (Fin 300))) = PosInf"
proof -
  have 1: "snd (calcPace (Running_fields march3 0 click (Fin 5) (Fin 25) (Fin 178))) \<noteq>
     Running_fields march3 0 click (Fin 5) (Fin 25) (Fin 178)"
    by (simp add: calcPace_def Running_fields_def Let_def to_double_5)
  have 2: "snd (calcSpeed (Cycling_fields march3 0 click (Fin 20) (Fin 60) (Fin 300))) \<noteq>
     Cycling_fields march3 0 click (Fin 20) (Fin 60) (Fin 300)"
    by (simp add: calcSpeed_def Cycling_fields_def Let_def to_double_examples)
  have 3: "fst (calcPace (Running_fields march3 0 click (Fin 3) (Fin 1) (Fin 178))) \<noteq>
     Fin (1 / 3)"
    by (simp add: calcPace_def Running_fields_def Let_def to_double_third)
  have "overflow \<le> \<bar>2 ^ 1023 / (4803839602528529 / 288230376151711744)\<bar>"
    by (simp add: overflow_def)
  from to_double_overflow [OF this]
  have "to_double (2 ^ 1023 / (4803839602528529 / 288230376151711744)) = PosInf"
    by simp
  then have 4: "fst (calcSpeed (Cycling_fields march3 0 click (Fin (2 ^ 1023)) (Fin 1)
      (Fin 300))) = PosInf"
    by (simp add: calcSpeed_def Cycling_fields_def Let_def to_double_sixtieth)
  show ?thesis using 1 2 3 4 by blast
qed

section \<open>The description\<close>



section \<open>Identifiers\<close>

text \<open>
  C6, as amended. The \<open>id\<close> of a record is the last ten decimal digits of the clock
  reading at its creation. Two records, of either kind, created at readings (not
  negative) that differ modulo \<open>10^10\<close> milliseconds have different ids; and
  \<open>_renderWorkoutMarker\<close>, the one method that writes to a record after its construction,
  leaves the id as it is.
\<close>

theorem ids_differ_when_clock_differs:
  assumes "0 \<le> t1" and "0 \<le> t2" and "t1 mod 10 ^ 10 \<noteq> t2 mod 10 ^ 10"
  shows
    "id' (Running_new d1 t1 c1 x1 y1 z1) \<noteq> id' (Running_new d2 t2 c2 x2 y2 z2) \<and>
     id' (Running_new d1 t1 c1 x1 y1 z1) \<noteq> id' (Cycling_new d2 t2 c2 x2 y2 z2) \<and>
     id' (Cycling_new d1 t1 c1 x1 y1 z1) \<noteq> id' (Running_new d2 t2 c2 x2 y2 z2) \<and>
     id' (Cycling_new d1 t1 c1 x1 y1 z1) \<noteq> id' (Cycling_new d2 t2 c2 x2 y2 z2) \<and>
     (renderWorkoutMarker (to_object w) st = (Inr o', st') \<longrightarrow>
        read_prop o' ''id'' = Str (id' w))"
proof -
  have "Workout_id t1 \<noteq> Workout_id t2"
    using assms by (rule Workout_id_differ)
  moreover have "read_prop o' ''id'' = Str (id' w)"
    if "renderWorkoutMarker (to_object w) st = (Inr o', st')"
    using renderWorkoutMarker_keeps [OF that, of "''id''"] by simp
  ultimately show ?thesis by simp
qed

theorem ids_differ_when_clock_differs_witness:
  "(0::int) \<le> 1762153200123 \<and> (0::int) \<le> 1762153200124 \<and>
   (1762153200123::int) mod 10 ^ 10 \<noteq> 1762153200124 mod 10 ^ 10 \<and>
   id' (Running_new march3 1762153200123 click (Fin 5) (Fin 25) (Fin 178)) \<noteq>
     id' (Cycling_new march3 1762153200124 click (Fin 20) (Fin 60) (Fin 300)) \<and>
   (case fst (renderWorkoutMarker
          (to_object (Running_new march3 1762153200123 click (Fin 5) (Fin 25) (Fin 178))) ready) of
      Inl e \<Rightarrow> False
    | Inr o1 \<Rightarrow> read_prop o1 ''id'' = Str ''2153200123'')"
proof -
  have a: "(0::int) \<le> 1762153200123" and b: "(0::int) \<le> 1762153200124"
    and c: "(1762153200123::int) mod 10 ^ 10 \<noteq> 1762153200124 mod 10 ^ 10"
    by simp_all
  obtain o1 st1 where r1: "renderWorkoutMarker
      (to_object (Running_new march3 1762153200123 click (Fin 5) (Fin 25) (Fin 178))) ready
      = (Inr o1, st1)"
    by (simp add: renderWorkoutMarker_def get_def to_object_def ready_eq Let_def)
  show ?thesis
    using ids_differ_when_clock_differs [OF a b c, of march3 click "Fin 5" "Fin 25" "Fin 178"
        march3 click "Fin 20" "Fin 60" "Fin 300"
        "Running_new march3 1762153200123 click (Fin 5) (Fin 25) (Fin 178)" ready o1 st1]
      r1 Workout_id_example
    by simp
qed

text \<open>
  C6 as stated fails: two forms submitted at the same clock reading leave two records
  with the same id in the store.
\<close>

theorem ids_collide_counterexample:
  "ids_of (workouts (snd (newWorkout cyc_form march3 1762153200123
      (snd (newWorkout run_form march3 1762153200123 ready))))) =
     [Str ''2153200123'', Str ''2153200123'']"
  by (simp add: ready_eq example_defs app_defs ctor_defs object_defs Workout_id_example
      digits_of.simps digit_char_def)

section \<open>Validation of the form\<close>

text \<open>
  C3. Once the map has been clicked, \<open>_newWorkout\<close> checks a running form for a
  distance, a duration and a cadence that are all finite and strictly positive, and a
  cycling form for a distance and a duration that are so and an elevation gain that is
  finite. A form that fails the check is answered with the alert and nothing else
  changes, the store included; a form that passes goes on to the construction of the
  record, which is appended to the store.
\<close>

theorem newWorkout_validation:
  assumes "mapEvent st = Some latlng"
  shows
    "(inputType f = ''running'' \<longrightarrow>
        (if finite_positive (inputDistance f) \<and> finite_positive (inputDuration f) \<and>
            finite_positive (inputCadence f)
         then newWorkout f d now st =
                addWorkout (to_object (Running_new d now latlng (inputDistance f)
                  (inputDuration f) (inputCadence f))) st
         else newWorkout f d now st =
                (Inr (), st\<lparr>alerts := alerts st @ [''Inputs have to be a positive number!'']\<rparr>))) \<and>
     (inputType f = ''cycling'' \<longrightarrow>
        (if finite_positive (inputDistance f) \<and> finite_positive (inputDuration f) \<and>
            isFinite (inputElevation f)
         then newWorkout f d now st =
                addWorkout (to_object (Cycling_new d now latlng (inputDistance f)
                  (inputDuration f) (inputElevation f))) st
         else newWorkout f d now st =
                (Inr (), st\<lparr>alerts := alerts st @ [''Inputs have to be a positive number!'']\<rparr>))) \<and>
     (workouts st = Array ws \<longrightarrow>
        length (elements (workouts (snd (addWorkout w st)))) = Suc (length ws))"
proof -
  have fp: "finite_positive x = (isFinite x \<and> gt0 x)" for x
    by (cases x) simp_all
  have "length (elements (workouts (snd (addWorkout w st)))) = Suc (length ws)"
    if "workouts st = Array ws"
    using that
    by (auto simp: addWorkout_def renderWorkoutMarker_def renderWorkout_def
        setLocalStorage_def hideForm_def Let_def
        split: prod.splits sum.splits option.splits)
  then show ?thesis
    using assms
    by (auto simp: newWorkout_def alert_inputs_def validInputs_def isPositiveInputs_def
        Let_def fp)
qed

theorem newWorkout_validation_witness:
  "mapEvent ready = Some click \<and>
   newWorkout (run_form\<lparr>inputDistance := Fin 0\<rparr>) march3 1762153200123 ready =
     (Inr (), ready\<lparr>alerts := [''Inputs have to be a positive number!'']\<rparr>) \<and>
   newWorkout (run_form\<lparr>inputDistance := Fin (- 1)\<rparr>) march3 1762153200123 ready =
     (Inr (), ready\<lparr>alerts := [''Inputs have to be a positive number!'']\<rparr>) \<and>
   newWorkout (run_form\<lparr>inputDuration := NaN\<rparr>) march3 1762153200123 ready =
     (Inr (), ready\<lparr>alerts := [''Inputs have to be a positive number!'']\<rparr>) \<and>
   newWorkout (run_form\<lparr>inputCadence := Fin 0\<rparr>) march3 1762153200123 ready =
     (Inr (), ready\<lparr>alerts := [''Inputs have to be a positive number!'']\<rparr>) \<and>
   newWorkout (cyc_form\<lparr>inputElevation := PosInf\<rparr>) march3 1762153200123 ready =
     (Inr (), ready\<lparr>alerts := [''Inputs have to be a positive number!'']\<rparr>) \<and>
   newWorkout cyc_form march3 1762153200123 ready =
     addWorkout (to_object (Cycling_new march3 1762153200123 click (Fin 20) (Fin 60)
       (Fin (- 300)))) ready \<and>
   workouts ready = Array [] \<and>
   length (elements (workouts (snd (newWorkout cyc_form march3 1762153200123 ready)))) = 1"
proof -
  have h: "mapEvent ready = Some click" by (simp add: ready_eq)
  have e: "workouts ready = Array []" and a: "alerts ready = []" by (simp_all add: ready_eq)
  note v = newWorkout_validation [OF h, of _ march3 1762153200123 "[]"]
  have c: "newWorkout cyc_form march3 1762153200123 ready =
     addWorkout (to_object (Cycling_new march3 1762153200123 click (Fin 20) (Fin 60)
       (Fin (- 300)))) ready"
    using v [of cyc_form] by (simp add: cyc_form_def)
  have "length (elements (workouts (snd (newWorkout cyc_form march3 1762153200123 ready)))) = 1"
    unfolding c using v [of cyc_form] e by simp
  then show ?thesis
    using h e a c v [of "run_form\<lparr>inputDistance := Fin 0\<rparr>"]
      v [of "run_form\<lparr>inputDistance := Fin (- 1)\<rparr>"]
      v [of "run_form\<lparr>inputDuration := NaN\<rparr>"]
      v [of "run_form\<lparr>inputCadence := Fin 0\<rparr>"]
      v [of "cyc_form\<lparr>inputElevation := PosInf\<rparr>"]
    by (simp add: run_form_def cyc_form_def)
qed

section \<open>Deleting a workout\<close>

lemma find_id_absent:
  assumes "\<forall>w \<in> set ws. w \<noteq> Undefined \<and> w \<noteq> Null \<and> read_prop w ''id'' \<noteq> Str s"
  shows "find_id ws s = Inr Undefined"
  using assms by (induction ws) (simp_all add: get_def)

lemma find_id_found:
  assumes "find_id ws s = Inr w" and "w \<noteq> Undefined"
  shows "w \<in> set ws \<and> read_prop w ''id'' = Str s"
  using assms by (induction ws) (auto simp: get_def split: if_splits)

lemma read_prop_Str_not_falsy: "read_prop w p = Str s \<Longrightarrow> \<not> falsy w"
  by (cases w) simp_all

lemma indexOf_lower: "- 1 \<le> indexOf ws w"
  by (induction ws) (simp_all add: Let_def)

lemma indexOf_member:
  assumes "w \<in> set ws"
  shows "0 \<le> indexOf ws w \<and> nat (indexOf ws w) < length ws \<and> ws ! nat (indexOf ws w) = w"
  using assms
proof (induction ws)
  case Nil
  then show ?case by simp
next
  case (Cons x xs)
  show ?case
  proof (cases "x = w")
    case True
    then show ?thesis by simp
  next
    case False
    with Cons have ih: "0 \<le> indexOf xs w" "nat (indexOf xs w) < length xs"
      "xs ! nat (indexOf xs w) = w"
      by simp_all
    then have "nat (indexOf xs w + 1) = Suc (nat (indexOf xs w))" by simp
    with False ih show ?thesis by (simp add: Let_def)
  qed
qed

text \<open>\<open>_removeWorkout\<close> when the store holds a workout with the \<open>data-id\<close> of the element.\<close>

lemma removeWorkout_found:
  assumes "workouts st = Array ws" and "find_id ws s = Inr w" and "w \<noteq> Undefined"
  shows "removeWorkout (Some (el, s)) st =
     (case read_prop w ''marker'' of
        MarkerObj m \<Rightarrow>
          setLocalStorage
            (st\<lparr>workouts := Array (splice1 (nat (indexOf ws w)) ws),
                list_view := filter (\<lambda>l. node l \<noteq> el) (list_view st),
                map' := map_option (filter (\<lambda>x. x \<noteq> m)) (map' st)\<rparr>)
      | _ \<Rightarrow>
          (Inl (TypeError ''Cannot read properties (remove)''),
           st\<lparr>workouts := Array (splice1 (nat (indexOf ws w)) ws),
               list_view := filter (\<lambda>l. node l \<noteq> el) (list_view st)\<rparr>))"
proof -
  from find_id_found [OF assms(2,3)] have m: "w \<in> set ws" and i: "read_prop w ''id'' = Str s"
    by simp_all
  from i have nf: "\<not> falsy w" by (rule read_prop_Str_not_falsy)
  from indexOf_member [OF m] have ix: "indexOf ws w > - 1" by simp
  show ?thesis
    using assms(1,2) nf ix
    by (simp add: removeWorkout_def findWorkout_def Let_def split: jsval.splits)
qed

text \<open>
  C7. When no workout of the store has the \<open>data-id\<close> of the element clicked,
  \<open>_findWorkout\<close> finds nothing and \<open>_removeWorkout\<close> returns with the store, and all
  the rest of the state, as they were.
\<close>

theorem removeWorkout_absent_id:
  assumes "workouts st = Array ws"
    and "\<forall>w \<in> set ws. w \<noteq> Undefined \<and> w \<noteq> Null \<and> read_prop w ''id'' \<noteq> Str s"
  shows "findWorkout st s = Inr Undefined \<and> removeWorkout (Some (el, s)) st = (Inr (), st)"
  using assms(1) find_id_absent [OF assms(2)]
  by (simp add: removeWorkout_def findWorkout_def)

theorem removeWorkout_absent_id_witness:
  "ids_of (workouts one_added) = [Str ''2153200123''] \<and>
   findWorkout one_added ''0000000000'' = Inr Undefined \<and>
   removeWorkout (Some (1, ''0000000000'')) one_added = (Inr (), one_added)"
proof -
  have "\<exists>ws. workouts one_added = Array ws \<and> ids_of (workouts one_added) = [Str ''2153200123''] \<and>
      (\<forall>w \<in> set ws. w \<noteq> Undefined \<and> w \<noteq> Null \<and> read_prop w ''id'' \<noteq> Str ''0000000000'')"
    by (simp add: one_added_def ready_eq eval_defs Workout_id_example)
  then obtain ws where a: "workouts one_added = Array ws"
    and i: "ids_of (workouts one_added) = [Str ''2153200123'']"
    and b: "\<forall>w \<in> set ws. w \<noteq> Undefined \<and> w \<noteq> Null \<and> read_prop w ''id'' \<noteq> Str ''0000000000''"
    by blast
  show ?thesis
    using removeWorkout_absent_id [OF a b, of 1] i by simp
qed

text \<open>
  C10, as amended. \<open>_removeWorkout\<close> reads the marker of the workout it has found after
  it has taken the workout out of the store and its entry out of the list. When the
  marker is \<open>undefined\<close> (a workout read from local storage, before the map has placed
  its marker) the method raises there: the workout and the entry are gone, and
  \<open>_setLocalStorage\<close> is not reached, so local storage keeps what it had. When the marker
  is there, it is taken off the map and \<open>_setLocalStorage\<close> runs on the store that
  remains.
\<close>

theorem removeWorkout_needs_marker:
  assumes "workouts st = Array ws" and "find_id ws s = Inr w" and "w \<noteq> Undefined"
  shows
    "(read_prop w ''marker'' = Undefined \<longrightarrow>
        removeWorkout (Some (el, s)) st =
          (Inl (TypeError ''Cannot read properties (remove)''),
           st\<lparr>workouts := Array (splice1 (nat (indexOf ws w)) ws),
               list_view := filter (\<lambda>l. node l \<noteq> el) (list_view st)\<rparr>)) \<and>
     (read_prop w ''marker'' = MarkerObj m \<longrightarrow>
        removeWorkout (Some (el, s)) st =
          setLocalStorage
            (st\<lparr>workouts := Array (splice1 (nat (indexOf ws w)) ws),
                list_view := filter (\<lambda>l. node l \<noteq> el) (list_view st),
                map' := map_option (filter (\<lambda>x. x \<noteq> m)) (map' st)\<rparr>)) \<and>
     nat (indexOf ws w) < length ws \<and> ws ! nat (indexOf ws w) = w \<and>
     length (splice1 (nat (indexOf ws w)) ws) = length ws - 1"
proof -
  from find_id_found [OF assms(2,3)] have "w \<in> set ws" by simp
  from indexOf_member [OF this]
  have "nat (indexOf ws w) < length ws" and "ws ! nat (indexOf ws w) = w" by simp_all
  moreover from this have "length (splice1 (nat (indexOf ws w)) ws) = length ws - 1"
    by (simp add: splice1_def)
  ultimately show ?thesis
    using removeWorkout_found [OF assms, of el] by simp
qed

theorem removeWorkout_needs_marker_witness:
  "ids_of (workouts one_restored) = [Str ''2153200123''] \<and>
   map node (list_view one_restored) = [0] \<and>
   removeWorkout (Some (0, ''2153200123'')) one_restored =
     (Inl (TypeError ''Cannot read properties (remove)''),
      one_restored\<lparr>workouts := Array [], list_view := []\<rparr>) \<and>
   ids_of (workouts one_added) = [Str ''2153200123''] \<and>
   map node (list_view one_added) = [1] \<and>
   removeWorkout (Some (1, ''2153200123'')) one_added =
     (Inr (), one_added\<lparr>workouts := Array [], list_view := [], map' := Some [],
        storage := Some (JSONText (JArr []))\<rparr>)"
proof -
  have "\<exists>w. workouts one_restored = Array [w] \<and> find_id [w] ''2153200123'' = Inr w \<and>
      w \<noteq> Undefined \<and> read_prop w ''marker'' = Undefined \<and>
      map node (list_view one_restored) = [0]"
    by (simp add: one_restored_def getLocalStorage_def App_fields_def one_saved_def
        renderWorkout_def get_def Let_def)
  then obtain w where a: "workouts one_restored = Array [w]"
    and b: "find_id [w] ''2153200123'' = Inr w" and c: "w \<noteq> Undefined"
    and d: "read_prop w ''marker'' = Undefined"
    and e: "map node (list_view one_restored) = [0]"
    by auto
  have "\<exists>v. workouts one_added = Array [v] \<and> find_id [v] ''2153200123'' = Inr v \<and>
      v \<noteq> Undefined \<and> read_prop v ''marker'' = MarkerObj 0 \<and>
      map node (list_view one_added) = [1] \<and> map' one_added = Some [0]"
    by (simp add: one_added_def ready_eq eval_defs Workout_id_example)
  then obtain v where a': "workouts one_added = Array [v]"
    and b': "find_id [v] ''2153200123'' = Inr v" and c': "v \<noteq> Undefined"
    and d': "read_prop v ''marker'' = MarkerObj 0"
    and e': "map node (list_view one_added) = [1]" and f': "map' one_added = Some [0]"
    by auto
  have l: "filter (\<lambda>l. node l \<noteq> n) ls = []" if "map node ls = [n]" for ls :: "li list" and n
    using that by (cases ls) auto
  have i: "ids_of (workouts one_restored) = [Str ''2153200123'']"
    using a find_id_found [OF b c] by simp
  have i': "ids_of (workouts one_added) = [Str ''2153200123'']"
    using a' find_id_found [OF b' c'] by simp
  have s: "splice1 (nat (indexOf [x] x)) [x] = []" for x :: jsval
    by (simp add: splice1_def)
  have r: "removeWorkout (Some (0, ''2153200123'')) one_restored =
     (Inl (TypeError ''Cannot read properties (remove)''),
      one_restored\<lparr>workouts := Array [], list_view := []\<rparr>)"
    using removeWorkout_needs_marker [OF a b c, where el = 0 and m = 0] d
    by (simp only: s l [OF e] simp_thms)
  have "removeWorkout (Some (1, ''2153200123'')) one_added =
      setLocalStorage
        (one_added\<lparr>workouts := Array (splice1 (nat (indexOf [v] v)) [v]),
           list_view := filter (\<lambda>l. node l \<noteq> 1) (list_view one_added),
           map' := map_option (filter (\<lambda>x. x \<noteq> 0)) (map' one_added)\<rparr>)"
    using removeWorkout_needs_marker [OF a' b' c', where el = 1 and m = 0] d' by blast
  then have "removeWorkout (Some (1, ''2153200123'')) one_added =
      setLocalStorage (one_added\<lparr>workouts := Array [], list_view := [], map' := Some []\<rparr>)"
    unfolding s l [OF e'] f' by simp
  then have r': "removeWorkout (Some (1, ''2153200123'')) one_added =
     (Inr (), one_added\<lparr>workouts := Array [], list_view := [], map' := Some [],
        storage := Some (JSONText (JArr []))\<rparr>)"
    by (simp add: setLocalStorage_def)
  show ?thesis
    using i e r i' e' r' by (intro conjI)
qed

text \<open>
  C10 as stated fails in one point: the entry has left the list when the method raises.
\<close>

theorem removeWorkout_list_cleanup_counterexample:
  "map node (list_view one_restored) = [0] \<and>
   fst (removeWorkout (Some (0, ''2153200123'')) one_restored) =
     Inl (TypeError ''Cannot read properties (remove)'') \<and>
   list_view (snd (removeWorkout (Some (0, ''2153200123'')) one_restored)) = [] \<and>
   storage (snd (removeWorkout (Some (0, ''2153200123'')) one_restored)) =
     Some (JSONText one_saved)"
  by (simp add: one_restored_def getLocalStorage_def App_fields_def one_saved_def
      renderWorkout_def get_def removeWorkout_def findWorkout_def splice1_def Let_def)

section \<open>Saving\<close>

lemma stringify_error:
  "JSON_stringify v = Inl e \<Longrightarrow> e = TypeError ''Converting circular structure to JSON''"
  "stringify_elems vs = Inl e \<Longrightarrow> e = TypeError ''Converting circular structure to JSON''"
  "stringify_props ps = Inl e \<Longrightarrow> e = TypeError ''Converting circular structure to JSON''"
  by (induction v and vs and ps rule: JSON_stringify_stringify_elems_stringify_props.induct)
     (auto split: sum.splits)

lemma put_marker_own_props:
  "put ''marker'' (MarkerObj m) (own_props w) = own_props (w\<lparr>marker := Some m\<rparr>)"
  by (simp add: own_props_def kind_props_def type'_def)

lemma stringify_marked:
  "marker w = Some m \<Longrightarrow>
     JSON_stringify (to_object w) = Inl (TypeError ''Converting circular structure to JSON'')"
  by (simp add: to_object_def own_props_def)

lemma stringify_elems_last_error:
  assumes "JSON_stringify x = Inl e"
  shows "stringify_elems (ws @ [x]) = Inl (TypeError ''Converting circular structure to JSON'')"
proof (induction ws)
  case Nil
  from assms stringify_error(1) [OF assms] show ?case by simp
next
  case (Cons w ws)
  then show ?case
    by (auto split: sum.splits dest: stringify_error(1))
qed

lemma to_object_defined [simp]: "to_object w \<noteq> Undefined" "to_object w \<noteq> Null"
  by (simp_all add: to_object_def)

lemma read_prop_type [simp]: "read_prop (to_object w) ''type'' = Str (type' w)"
  by (simp add: object_defs)

lemma read_prop_pace [simp]:
  "read_prop (to_object w) ''pace'' = (case pace w of None \<Rightarrow> Undefined | Some n \<Rightarrow> Number n)"
  by (simp add: object_defs map_of_opt_prop map_add_def split: option.splits)

lemma read_prop_speed [simp]:
  "read_prop (to_object w) ''speed'' = (case speed w of None \<Rightarrow> Undefined | Some n \<Rightarrow> Number n)"
  by (simp add: object_defs map_of_opt_prop map_add_def split: option.splits)

text \<open>\<open>_newWorkout\<close> from the \<open>push\<close> on, for a new record, when the map is there.\<close>

lemma addWorkout_instance:
  assumes "workouts st = Array ws" and "map' st = Some ls"
    and "cls w = RunningC \<longrightarrow> pace w \<noteq> None" and "cls w = CyclingC \<longrightarrow> speed w \<noteq> None"
  shows "addWorkout (to_object w) st =
     (Inl (TypeError ''Converting circular structure to JSON''),
      st\<lparr>workouts := Array (ws @ [to_object (w\<lparr>marker := Some (fresh st)\<rparr>)]),
         map' := Some (ls @ [fresh st]),
         list_view := \<lparr>node = Suc (fresh st),
                       content = to_object (w\<lparr>marker := Some (fresh st)\<rparr>)\<rparr> # list_view st,
         form_hidden := True,
         fresh := Suc (Suc (fresh st))\<rparr>)"
proof -
  let ?w' = "w\<lparr>marker := Some (fresh st)\<rparr>"
  let ?st2 = "st\<lparr>workouts := Array (ws @ [to_object w]), map' := Some (ls @ [fresh st]),
     fresh := Suc (fresh st)\<rparr>"
  have m: "renderWorkoutMarker (to_object w) (st\<lparr>workouts := Array (ws @ [to_object w])\<rparr>) =
      (Inr (to_object ?w'), ?st2)"
    using assms(2)
    by (simp add: renderWorkoutMarker_def get_def to_object_def put_marker_own_props)
  have r: "renderWorkout (to_object ?w') st' =
      (Inr (), st'\<lparr>list_view := \<lparr>node = fresh st', content = to_object ?w'\<rparr> # list_view st',
         fresh := Suc (fresh st')\<rparr>)" for st'
    using assms(3,4)
    by (cases "cls w") (auto simp: renderWorkout_def get_def type'_def)
  have s: "stringify_elems (ws @ [to_object ?w']) =
      Inl (TypeError ''Converting circular structure to JSON'')"
    using stringify_elems_last_error [OF stringify_marked [of ?w' "fresh st"], of ws]
    by simp
  show ?thesis
    using assms(1) m
    by (simp add: addWorkout_def Let_def r setLocalStorage_def s hideForm_def)
qed

text \<open>
  C5, as amended. When \<open>JSON.stringify\<close> cannot write the store, \<open>_setLocalStorage\<close>
  raises the engine's own TypeError (converting a circular structure), which nothing
  catches, and leaves the state, store and local storage included, as it was. What the
  operation that called it has done stays done: after \<open>_newWorkout\<close> the record is in the
  store with its marker on the map and its entry in the list (the new record holds its
  marker, so this save always fails); after \<open>_removeWorkout\<close> the record, its entry and
  its marker are gone.
\<close>

theorem save_failure:
  "(JSON_stringify (workouts st) = Inl e \<longrightarrow>
      setLocalStorage st = (Inl e, st) \<and>
      e = TypeError ''Converting circular structure to JSON'') \<and>
   (workouts st = Array ws \<and> map' st = Some ls \<and>
    (cls w = RunningC \<longrightarrow> pace w \<noteq> None) \<and> (cls w = CyclingC \<longrightarrow> speed w \<noteq> None) \<longrightarrow>
      addWorkout (to_object w) st =
        (Inl (TypeError ''Converting circular structure to JSON''),
         st\<lparr>workouts := Array (ws @ [to_object (w\<lparr>marker := Some (fresh st)\<rparr>)]),
            map' := Some (ls @ [fresh st]),
            list_view := \<lparr>node = Suc (fresh st),
                          content = to_object (w\<lparr>marker := Some (fresh st)\<rparr>)\<rparr> # list_view st,
            form_hidden := True,
            fresh := Suc (Suc (fresh st))\<rparr>)) \<and>
   (workouts st = Array ws \<and> find_id ws s = Inr v \<and> read_prop v ''marker'' = MarkerObj m \<and>
    JSON_stringify (Array (splice1 (nat (indexOf ws v)) ws)) = Inl e \<longrightarrow>
      removeWorkout (Some (el, s)) st =
        (Inl e,
         st\<lparr>workouts := Array (splice1 (nat (indexOf ws v)) ws),
            list_view := filter (\<lambda>l. node l \<noteq> el) (list_view st),
            map' := map_option (filter (\<lambda>x. x \<noteq> m)) (map' st)\<rparr>))"
proof (intro conjI impI)
  assume "JSON_stringify (workouts st) = Inl e"
  then show "setLocalStorage st = (Inl e, st)"
    by (simp add: setLocalStorage_def)
next
  assume "JSON_stringify (workouts st) = Inl e"
  then show "e = TypeError ''Converting circular structure to JSON''"
    by (rule stringify_error(1))
next
  assume "workouts st = Array ws \<and> map' st = Some ls \<and>
    (cls w = RunningC \<longrightarrow> pace w \<noteq> None) \<and> (cls w = CyclingC \<longrightarrow> speed w \<noteq> None)"
  then show "addWorkout (to_object w) st =
        (Inl (TypeError ''Converting circular structure to JSON''),
         st\<lparr>workouts := Array (ws @ [to_object (w\<lparr>marker := Some (fresh st)\<rparr>)]),
            map' := Some (ls @ [fresh st]),
            list_view := \<lparr>node = Suc (fresh st),
                          content = to_object (w\<lparr>marker := Some (fresh st)\<rparr>)\<rparr> # list_view st,
            form_hidden := True,
            fresh := Suc (Suc (fresh st))\<rparr>)"
    using addWorkout_instance [of st ws ls w] by blast
next
  assume a: "workouts st = Array ws \<and> find_id ws s = Inr v \<and>
    read_prop v ''marker'' = MarkerObj m \<and>
    JSON_stringify (Array (splice1 (nat (indexOf ws v)) ws)) = Inl e"
  then have "v \<noteq> Undefined" by auto
  with a show "removeWorkout (Some (el, s)) st =
        (Inl e,
         st\<lparr>workouts := Array (splice1 (nat (indexOf ws v)) ws),
            list_view := filter (\<lambda>l. node l \<noteq> el) (list_view st),
            map' := map_option (filter (\<lambda>x. x \<noteq> m)) (map' st)\<rparr>)"
    using removeWorkout_found [of st ws s v el]
    by (simp add: setLocalStorage_def)
qed

theorem save_failure_witness:
  "setLocalStorage one_added =
     (Inl (TypeError ''Converting circular structure to JSON''), one_added) \<and>
   newWorkout run_form march3 1762153200123 ready =
     (Inl (TypeError ''Converting circular structure to JSON''),
      ready\<lparr>workouts := Array [to_object
           ((Running_new march3 1762153200123 click (Fin 5) (Fin 25) (Fin 178))
              \<lparr>marker := Some 0\<rparr>)],
         map' := Some [0],
         list_view := [\<lparr>node = 1, content = to_object
           ((Running_new march3 1762153200123 click (Fin 5) (Fin 25) (Fin 178))
              \<lparr>marker := Some 0\<rparr>)\<rparr>],
         form_hidden := True, fresh := 2\<rparr>) \<and>
   ids_of (workouts two_added) = [Str ''2153200123'', Str ''2153200124''] \<and>
   fst (removeWorkout (Some (1, ''2153200123'')) two_added) =
     Inl (TypeError ''Converting circular structure to JSON'') \<and>
   ids_of (workouts (snd (removeWorkout (Some (1, ''2153200123'')) two_added))) =
     [Str ''2153200124''] \<and>
   map node (list_view (snd (removeWorkout (Some (1, ''2153200123'')) two_added))) = [3] \<and>
   map' (snd (removeWorkout (Some (1, ''2153200123'')) two_added)) = Some [2] \<and>
   storage (snd (removeWorkout (Some (1, ''2153200123'')) two_added)) = None"
proof -
  let ?circ = "TypeError ''Converting circular structure to JSON''"
  let ?R = "Running_new march3 1762153200123 click (Fin 5) (Fin 25) (Fin 178)"
  have 1: "JSON_stringify (workouts one_added) = Inl ?circ"
    by (simp add: one_added_def ready_eq eval_defs Workout_id_example)
  have A: "setLocalStorage one_added = (Inl ?circ, one_added)"
    using save_failure [of one_added ?circ] 1 by blast
  have 2: "newWorkout run_form march3 1762153200123 ready = addWorkout (to_object ?R) ready"
    by (simp add: newWorkout_def run_form_def ready_eq validInputs_def isPositiveInputs_def
        click_def Let_def)
  have 3: "workouts ready = Array [] \<and> map' ready = Some [] \<and>
      (cls ?R = RunningC \<longrightarrow> pace ?R \<noteq> None) \<and> (cls ?R = CyclingC \<longrightarrow> speed ?R \<noteq> None)"
    by (simp add: ready_eq ctor_defs)
  have "addWorkout (to_object ?R) ready =
        (Inl ?circ,
         ready\<lparr>workouts := Array ([] @ [to_object (?R\<lparr>marker := Some (fresh ready)\<rparr>)]),
            map' := Some ([] @ [fresh ready]),
            list_view := \<lparr>node = Suc (fresh ready),
                          content = to_object (?R\<lparr>marker := Some (fresh ready)\<rparr>)\<rparr> #
                         list_view ready,
            form_hidden := True,
            fresh := Suc (Suc (fresh ready))\<rparr>)"
    using save_failure [of ready _ "[]" "[]" ?R] 3 by blast
  moreover have "fresh ready = 0" "list_view ready = []" by (simp_all add: ready_eq)
  ultimately have B: "newWorkout run_form march3 1762153200123 ready =
     (Inl ?circ,
      ready\<lparr>workouts := Array [to_object (?R\<lparr>marker := Some 0\<rparr>)],
         map' := Some [0],
         list_view := [\<lparr>node = 1, content = to_object (?R\<lparr>marker := Some 0\<rparr>)\<rparr>],
         form_hidden := True, fresh := 2\<rparr>)"
    unfolding 2 by (simp add: numeral_2_eq_2)
  have "\<exists>v1 v2. workouts two_added = Array [v1, v2] \<and>
      find_id [v1, v2] ''2153200123'' = Inr v1 \<and> read_prop v1 ''marker'' = MarkerObj 0 \<and>
      indexOf [v1, v2] v1 = 0 \<and> JSON_stringify (Array [v2]) = Inl ?circ \<and>
      read_prop v1 ''id'' = Str ''2153200123'' \<and> read_prop v2 ''id'' = Str ''2153200124'' \<and>
      map node (list_view two_added) = [3, 1] \<and> map' two_added = Some [0, 2] \<and>
      storage two_added = None"
    by (simp add: two_added_def one_added_def ready_eq eval_defs Workout_id_example
        Workout_id_example2)
  then obtain v1 v2 where w: "workouts two_added = Array [v1, v2]"
    and f: "find_id [v1, v2] ''2153200123'' = Inr v1"
    and m: "read_prop v1 ''marker'' = MarkerObj 0"
    and x: "indexOf [v1, v2] v1 = 0"
    and j: "JSON_stringify (Array [v2]) = Inl ?circ"
    and i1: "read_prop v1 ''id'' = Str ''2153200123''"
    and i2: "read_prop v2 ''id'' = Str ''2153200124''"
    and l: "map node (list_view two_added) = [3, 1]"
    and p: "map' two_added = Some [0, 2]"
    and g: "storage two_added = None"
    by auto
  have sp: "splice1 (nat (indexOf [v1, v2] v1)) [v1, v2] = [v2]"
    by (simp add: x splice1_def)
  have "workouts two_added = Array [v1, v2] \<and> find_id [v1, v2] ''2153200123'' = Inr v1 \<and>
      read_prop v1 ''marker'' = MarkerObj 0 \<and>
      JSON_stringify (Array (splice1 (nat (indexOf [v1, v2] v1)) [v1, v2])) = Inl ?circ"
    using w f m j unfolding sp by blast
  then have "removeWorkout (Some (1, ''2153200123'')) two_added =
        (Inl ?circ,
         two_added\<lparr>workouts := Array (splice1 (nat (indexOf [v1, v2] v1)) [v1, v2]),
            list_view := filter (\<lambda>l. node l \<noteq> 1) (list_view two_added),
            map' := map_option (filter (\<lambda>x. x \<noteq> 0)) (map' two_added)\<rparr>)"
    using save_failure [of two_added ?circ "[v1, v2]" _ _ "''2153200123''" v1 0 1] by blast
  then have C: "removeWorkout (Some (1, ''2153200123'')) two_added =
        (Inl ?circ,
         two_added\<lparr>workouts := Array [v2],
            list_view := filter (\<lambda>l. node l \<noteq> 1) (list_view two_added),
            map' := Some [2]\<rparr>)"
    unfolding sp p by simp
  have fl: "map node (filter (\<lambda>l. node l \<noteq> 1) ls) = [3]" if "map node ls = [3, 1]"
    for ls :: "li list"
    using that by (auto simp: map_eq_Cons_conv)
  show ?thesis
    unfolding C using A B w i1 i2 g fl [OF l] by simp
qed

text \<open>
  C5 as stated fails in one point: what the save raises is the TypeError of
  \<open>JSON.stringify\<close> itself, not an error of the program's own.
\<close>

theorem save_raises_TypeError_counterexample:
  "fst (setLocalStorage one_added) = Inl (TypeError ''Converting circular structure to JSON'') \<and>
   fst (setLocalStorage one_added) \<noteq> Inl SyntaxError \<and>
   fst (setLocalStorage one_added) \<noteq> Inr ()"
  by (simp add: one_added_def ready_eq eval_defs Workout_id_example)

text \<open>
  C2 fails on the code. Once \<open>_renderWorkoutMarker\<close> has stored the marker in a record,
  as it has in every record \<open>_newWorkout\<close> adds, \<open>JSON.stringify\<close> does not leave the
  marker out: it raises, no text is produced and local storage is not written. (A
  record whose marker is \<open>undefined\<close> is written without it.)
\<close>

theorem save_with_marker_raises:
  "ids_of (workouts one_added) = [Str ''2153200123''] \<and>
   read_prop (hd (elements (workouts one_added))) ''marker'' = MarkerObj 0 \<and>
   JSON_stringify (workouts one_added) =
     Inl (TypeError ''Converting circular structure to JSON'') \<and>
   setLocalStorage one_added =
     (Inl (TypeError ''Converting circular structure to JSON''), one_added) \<and>
   storage one_added = None \<and>
   JSON_stringify
     (Array [to_object (Running_new march3 1762153200123 click (Fin 5) (Fin 25) (Fin 178))]) =
     Inr (Some one_saved)"
  by (simp add: one_added_def ready_eq eval_defs Workout_id_example one_saved_def)

section \<open>Reading local storage\<close>

text \<open>
  C4, as amended. With no item in local storage, and with one whose text is \<open>null\<close>,
  \<open>_getLocalStorage\<close> returns with the state as it was, the store empty at the start.
  With an item whose text is not JSON, the empty string included, it raises the
  SyntaxError of \<open>JSON.parse\<close>, which the constructor of \<open>App\<close> does not catch; the state
  is as it was.
\<close>

theorem getLocalStorage_absent_or_unparseable:
  "(storage st = None \<longrightarrow> getLocalStorage st = (Inr (), st)) \<and>
   (storage st = Some (JSONText JNull) \<longrightarrow> getLocalStorage st = (Inr (), st)) \<and>
   (storage st = Some (NotJSON s) \<longrightarrow> getLocalStorage st = (Inl SyntaxError, st))"
  by (simp add: getLocalStorage_def)

theorem getLocalStorage_absent_or_unparseable_witness:
  "workouts (App_fields None) = Array [] \<and>
   getLocalStorage (App_fields None) = (Inr (), App_fields None) \<and>
   getLocalStorage (App_fields (Some (JSONText JNull))) =
     (Inr (), App_fields (Some (JSONText JNull))) \<and>
   getLocalStorage (App_fields (Some (NotJSON ''[{''))) =
     (Inl SyntaxError, App_fields (Some (NotJSON ''[{'')))"
  using getLocalStorage_absent_or_unparseable [of "App_fields None"]
    getLocalStorage_absent_or_unparseable [of "App_fields (Some (JSONText JNull))"]
    getLocalStorage_absent_or_unparseable [of "App_fields (Some (NotJSON ''[{''))" "''[{''"]
  by (simp add: App_fields_def)

text \<open>
  C4 as stated fails: an item that cannot be parsed, and the empty string too, makes
  \<open>_getLocalStorage\<close> raise.
\<close>

theorem getLocalStorage_raises_counterexample:
  "fst (getLocalStorage (App_fields (Some (NotJSON ''[{'')))) = Inl SyntaxError \<and>
   fst (getLocalStorage (App_fields (Some (NotJSON [])))) = Inl SyntaxError"
  by (simp add: getLocalStorage_def App_fields_def)

section \<open>Saving and reading back\<close>

lemma isFinite_Fin: "isFinite n \<Longrightarrow> \<exists>r. n = Fin r"
  by (cases n) simp_all

lemma stringify_opt_prop:
  assumes "case x of None \<Rightarrow> True | Some n \<Rightarrow> isFinite n"
  shows "\<exists>ms. stringify_props (opt_prop k Number x) = Inr ms \<and>
     revive_members ms = opt_prop k Number x"
proof (cases x)
  case None
  then show ?thesis by simp
next
  case (Some n)
  with assms obtain r where "n = Fin r" using isFinite_Fin by auto
  with Some show ?thesis by simp
qed

lemma stringify_opt_prop_Str:
  "\<exists>ms. stringify_props (opt_prop k Str x) = Inr ms \<and> revive_members ms = opt_prop k Str x"
  by (cases x) simp_all

lemma stringify_props_append:
  assumes "stringify_props ps = Inr ms" and "stringify_props qs = Inr ns"
  shows "stringify_props (ps @ qs) = Inr (ms @ ns)"
  using assms
  by (induction ps arbitrary: ms) (auto split: sum.splits option.splits)

lemma revive_members_append: "revive_members (ms @ ns) = revive_members ms @ revive_members ns"
  by (induction ms) auto

lemma stringify_kind_props:
  assumes "storable w"
  shows "\<exists>ms. stringify_props (kind_props w) = Inr ms \<and> revive_members ms = kind_props w"
proof -
  from assms have
    c: "case cadence w of None \<Rightarrow> True | Some n \<Rightarrow> isFinite n" and
    p: "case pace w of None \<Rightarrow> True | Some n \<Rightarrow> isFinite n" and
    e: "case elevationGain w of None \<Rightarrow> True | Some n \<Rightarrow> isFinite n" and
    s: "case speed w of None \<Rightarrow> True | Some n \<Rightarrow> isFinite n"
    by (auto simp: storable_def split: option.splits)
  from stringify_opt_prop [OF c, of "''cadence''"] obtain m1 where
    1: "stringify_props (opt_prop ''cadence'' Number (cadence w)) = Inr m1"
       "revive_members m1 = opt_prop ''cadence'' Number (cadence w)" by blast
  from stringify_opt_prop [OF p, of "''pace''"] obtain m2 where
    2: "stringify_props (opt_prop ''pace'' Number (pace w)) = Inr m2"
       "revive_members m2 = opt_prop ''pace'' Number (pace w)" by blast
  from stringify_opt_prop [OF e, of "''elevationGain''"] obtain m3 where
    3: "stringify_props (opt_prop ''elevationGain'' Number (elevationGain w)) = Inr m3"
       "revive_members m3 = opt_prop ''elevationGain'' Number (elevationGain w)" by blast
  from stringify_opt_prop [OF s, of "''speed''"] obtain m4 where
    4: "stringify_props (opt_prop ''speed'' Number (speed w)) = Inr m4"
       "revive_members m4 = opt_prop ''speed'' Number (speed w)" by blast
  from stringify_opt_prop_Str [of "''description''" "description w"] obtain m5 where
    5: "stringify_props (opt_prop ''description'' Str (description w)) = Inr m5"
       "revive_members m5 = opt_prop ''description'' Str (description w)" by blast
  have "stringify_props (kind_props w) = Inr (m1 @ m2 @ m3 @ m4 @ m5)"
    unfolding kind_props_def
    by (intro stringify_props_append 1 2 3 4 5)
  moreover have "revive_members (m1 @ m2 @ m3 @ m4 @ m5) = kind_props w"
    by (simp add: revive_members_append 1 2 3 4 5 kind_props_def)
  ultimately show ?thesis by blast
qed

lemma stringify_own_props:
  assumes "storable w"
  shows "\<exists>ms. stringify_props (own_props w) = Inr ms \<and>
     revive_members ms =
       [(''date'', Str (toISOString (date w))), (''id'', Str (id' w)),
        (''coords'', Array [Number (fst (coords w)), Number (snd (coords w))]),
        (''distance'', Number (distance w)), (''duration'', Number (duration w)),
        (''type'', Str (type' w))] @ kind_props w"
proof -
  from stringify_kind_props [OF assms] obtain ks where
    k: "stringify_props (kind_props w) = Inr ks" "revive_members ks = kind_props w" by blast
  from assms obtain a b x y where
    f: "fst (coords w) = Fin a" "snd (coords w) = Fin b" "distance w = Fin x" "duration w = Fin y"
    and n: "marker w = None"
    unfolding storable_def using isFinite_Fin by metis
  have o: "own_props w =
      [(''date'', DateObj (date w)), (''id'', Str (id' w)), (''marker'', Undefined),
       (''coords'', Array [Number (Fin a), Number (Fin b)]),
       (''distance'', Number (Fin x)), (''duration'', Number (Fin y)),
       (''type'', Str (type' w))] @ kind_props w"
    by (simp add: own_props_def kind_props_def f n)
  have "stringify_props
      ([(''date'', DateObj (date w)), (''id'', Str (id' w)), (''marker'', Undefined),
       (''coords'', Array [Number (Fin a), Number (Fin b)]),
       (''distance'', Number (Fin x)), (''duration'', Number (Fin y)),
       (''type'', Str (type' w))] @ kind_props w) =
     Inr ([(''date'', JStr (toISOString (date w))), (''id'', JStr (id' w)),
       (''coords'', JArr [JNum a, JNum b]), (''distance'', JNum x), (''duration'', JNum y),
       (''type'', JStr (type' w))] @ ks)"
    by (rule stringify_props_append) (simp_all add: k)
  then show ?thesis
    unfolding o by (simp add: revive_members_append k f)
qed

lemma map_of_kind_props_base:
  "map_of (kind_props w) ''date'' = None" "map_of (kind_props w) ''marker'' = None"
  by (simp_all add: kind_props_def map_of_opt_prop map_add_def)

lemma roundtrip_props:
  assumes "storable w"
  shows "\<exists>ms. stringify_props (own_props w) = Inr ms \<and>
     (\<forall>p. p \<noteq> ''date'' \<longrightarrow>
        read_prop (Object None (revive_members ms)) p = read_prop (to_object w) p) \<and>
     read_prop (Object None (revive_members ms)) ''date'' = Str (toISOString (date w))"
proof -
  from stringify_own_props [OF assms] obtain ms where
    m: "stringify_props (own_props w) = Inr ms"
    and r: "revive_members ms =
       [(''date'', Str (toISOString (date w))), (''id'', Str (id' w)),
        (''coords'', Array [Number (fst (coords w)), Number (snd (coords w))]),
        (''distance'', Number (distance w)), (''duration'', Number (duration w)),
        (''type'', Str (type' w))] @ kind_props w"
    by blast
  from assms have n: "marker w = None" by (simp add: storable_def)
  have o: "own_props w =
      [(''date'', DateObj (date w)), (''id'', Str (id' w)), (''marker'', Undefined),
       (''coords'', Array [Number (fst (coords w)), Number (snd (coords w))]),
       (''distance'', Number (distance w)), (''duration'', Number (duration w)),
       (''type'', Str (type' w))] @ kind_props w"
    by (simp add: own_props_def kind_props_def n)
  have "read_prop (Object None (revive_members ms)) p = read_prop (to_object w) p"
    if "p \<noteq> ''date''" for p
    unfolding r to_object_def o using that
    by (simp add: map_of_kind_props_base map_add_def split: option.splits)
  moreover have "read_prop (Object None (revive_members ms)) ''date'' = Str (toISOString (date w))"
    unfolding r by simp
  ultimately show ?thesis using m by blast
qed


lemma revive_elems_map: "revive_elems js = map revive js"
  by (induction js) simp_all

lemma roundtrip_elems:
  assumes "\<forall>w \<in> set ws. storable w"
  shows "\<exists>js. stringify_elems (map to_object ws) = Inr js \<and>
     list_all2 (\<lambda>w j. (\<forall>p. p \<noteq> ''date'' \<longrightarrow> read_prop (revive j) p = read_prop (to_object w) p) \<and>
        read_prop (revive j) ''date'' = Str (toISOString (date w)) \<and>
        class_of (revive j) = None \<and> revive j \<noteq> Undefined \<and> revive j \<noteq> Null) ws js"
  using assms
proof (induction ws)
  case Nil
  then show ?case by simp
next
  case (Cons w ws)
  then obtain js where js: "stringify_elems (map to_object ws) = Inr js"
    "list_all2 (\<lambda>w j. (\<forall>p. p \<noteq> ''date'' \<longrightarrow> read_prop (revive j) p = read_prop (to_object w) p) \<and>
        read_prop (revive j) ''date'' = Str (toISOString (date w)) \<and>
        class_of (revive j) = None \<and> revive j \<noteq> Undefined \<and> revive j \<noteq> Null) ws js"
    by auto
  from Cons.prems have "storable w" by simp
  from roundtrip_props [OF this] obtain ms where
    ms: "stringify_props (own_props w) = Inr ms"
      "\<forall>p. p \<noteq> ''date'' \<longrightarrow>
        read_prop (Object None (revive_members ms)) p = read_prop (to_object w) p"
      "read_prop (Object None (revive_members ms)) ''date'' = Str (toISOString (date w))"
    by blast
  have "stringify_elems (map to_object (w # ws)) = Inr (JObj ms # js)"
    using js(1) ms(1) by (simp add: to_object_def [of w])
  moreover have "revive (JObj ms) = Object None (revive_members ms)" by simp
  ultimately show ?case
    using js(2) ms(2,3) by (intro exI [of _ "JObj ms # js"]) simp
qed

lemma renderWorkout_workouts:
  "workouts (snd (renderWorkout w st)) = workouts st"
  by (simp add: renderWorkout_def split: sum.splits)

lemma forEach_renderWorkout_workouts:
  "workouts (snd (forEach_renderWorkout rs st)) = workouts st"
proof (induction rs arbitrary: st)
  case Nil
  show ?case by simp
next
  case (Cons r rs)
  show ?case
    using Cons [of "snd (renderWorkout r st)"] renderWorkout_workouts [of r st]
    by (cases "renderWorkout r st") (auto split: sum.splits)
qed

lemma forEach_renderWorkout_ok:
  assumes "\<forall>r \<in> set rs. r \<noteq> Undefined \<and> r \<noteq> Null \<and>
      (read_prop r ''type'' = Str ''running'' \<longrightarrow> is_Number (read_prop r ''pace'')) \<and>
      (read_prop r ''type'' = Str ''cycling'' \<longrightarrow> is_Number (read_prop r ''speed''))"
  shows "fst (forEach_renderWorkout rs st) = Inr ()"
  using assms
proof (induction rs arbitrary: st)
  case Nil
  show ?case by simp
next
  case (Cons r rs)
  then show ?case
    by (auto simp: renderWorkout_def get_def)
qed


lemma storable_renders:
  assumes "storable w"
  shows "(read_prop (to_object w) ''type'' = Str ''running'' \<longrightarrow>
            is_Number (read_prop (to_object w) ''pace'')) \<and>
         (read_prop (to_object w) ''type'' = Str ''cycling'' \<longrightarrow>
            is_Number (read_prop (to_object w) ''speed''))"
  using assms
  by (cases "cls w") (auto simp: storable_def type'_def split: option.splits)

text \<open>
  C1, as amended. A store of records that hold no marker and whose numbers are finite is
  saved, and reading the saved text back gives as many values in the same order without
  an exception. Each is a plain object, of no class, on which every property other than
  \<open>date\<close> reads as on the record (the \<open>id\<close>, the coordinates, the distance, the duration, the type,
  the cadence and pace or elevation gain and speed, the description; no marker on
  either), and whose \<open>date\<close> is the ISO string of the record's Date.
\<close>

theorem save_then_restore:
  assumes "\<forall>w \<in> set ws. storable w" and "workouts st = Array (map to_object ws)"
  shows "\<exists>j rs. setLocalStorage st = (Inr (), st\<lparr>storage := Some (JSONText j)\<rparr>) \<and>
      fst (getLocalStorage (App_fields (Some (JSONText j)))) = Inr () \<and>
      workouts (snd (getLocalStorage (App_fields (Some (JSONText j))))) = Array rs \<and>
      length rs = length ws \<and>
      (\<forall>i < length ws.
         (\<forall>p. p \<noteq> ''date'' \<longrightarrow> read_prop (rs ! i) p = read_prop (to_object (ws ! i)) p) \<and>
         read_prop (rs ! i) ''date'' = Str (toISOString (date (ws ! i))) \<and>
         class_of (rs ! i) = None)"
proof -
  from roundtrip_elems [OF assms(1)] obtain js where
    js: "stringify_elems (map to_object ws) = Inr js"
    and rel: "list_all2 (\<lambda>w j.
        (\<forall>p. p \<noteq> ''date'' \<longrightarrow> read_prop (revive j) p = read_prop (to_object w) p) \<and>
        read_prop (revive j) ''date'' = Str (toISOString (date w)) \<and>
        class_of (revive j) = None \<and> revive j \<noteq> Undefined \<and> revive j \<noteq> Null) ws js"
    by blast
  let ?rs = "map revive js"
  let ?st1 = "(App_fields (Some (JSONText (JArr js))))\<lparr>workouts := Array ?rs\<rparr>"
  from rel have len: "length js = length ws" by (simp add: list_all2_lengthD)
  from rel have nth: "(\<forall>p. p \<noteq> ''date'' \<longrightarrow>
        read_prop (revive (js ! i)) p = read_prop (to_object (ws ! i)) p) \<and>
      read_prop (revive (js ! i)) ''date'' = Str (toISOString (date (ws ! i))) \<and>
      class_of (revive (js ! i)) = None \<and> revive (js ! i) \<noteq> Undefined \<and>
      revive (js ! i) \<noteq> Null"
    if "i < length ws" for i
    using that by (simp add: list_all2_conv_all_nth)
  have save: "setLocalStorage st = (Inr (), st\<lparr>storage := Some (JSONText (JArr js))\<rparr>)"
    using assms(2) js by (simp add: setLocalStorage_def)
  have get: "getLocalStorage (App_fields (Some (JSONText (JArr js)))) =
      forEach_renderWorkout ?rs ?st1"
    by (simp add: getLocalStorage_def App_fields_def revive_elems_map)
  have "r \<noteq> Undefined \<and> r \<noteq> Null \<and>
      (read_prop r ''type'' = Str ''running'' \<longrightarrow> is_Number (read_prop r ''pace'')) \<and>
      (read_prop r ''type'' = Str ''cycling'' \<longrightarrow> is_Number (read_prop r ''speed''))"
    if "r \<in> set ?rs" for r
  proof -
    from that obtain i where i: "i < length ws" and r: "r = revive (js ! i)"
      using len by (auto simp: in_set_conv_nth)
    from i assms(1) have "storable (ws ! i)" by simp
    from storable_renders [OF this] nth [OF i] show ?thesis
      unfolding r by simp
  qed
  then have ok: "fst (forEach_renderWorkout ?rs ?st1) = Inr ()"
    by (intro forEach_renderWorkout_ok) blast
  have ws': "workouts (snd (forEach_renderWorkout ?rs ?st1)) = Array ?rs"
    by (simp add: forEach_renderWorkout_workouts)
  show ?thesis
    using save ok ws' len nth unfolding get [symmetric]
    by (intro exI [of _ "JArr js"] exI [of _ ?rs]) simp
qed

theorem save_then_restore_witness:
  "setLocalStorage
     (ready\<lparr>workouts := Array [to_object
        (Running_new march3 1762153200123 click (Fin 5) (Fin 25) (Fin 178))]\<rparr>) =
     (Inr (), ready\<lparr>workouts := Array [to_object
        (Running_new march3 1762153200123 click (Fin 5) (Fin 25) (Fin 178))],
        storage := Some (JSONText one_saved)\<rparr>) \<and>
   fst (getLocalStorage (App_fields (Some (JSONText one_saved)))) = Inr () \<and>
   length (elements (workouts one_restored)) = 1 \<and>
   read_prop (hd (elements (workouts one_restored))) ''id'' = Str ''2153200123'' \<and>
   read_prop (hd (elements (workouts one_restored))) ''type'' = Str ''running'' \<and>
   read_prop (hd (elements (workouts one_restored))) ''cadence'' = Number (Fin 178) \<and>
   read_prop (hd (elements (workouts one_restored))) ''pace'' = Number (Fin 5) \<and>
   read_prop (hd (elements (workouts one_restored))) ''description'' =
     Str ''Running on March 3'' \<and>
   read_prop (hd (elements (workouts one_restored))) ''date'' =
     Str ''2026-03-03T09:30:00.000Z'' \<and>
   class_of (hd (elements (workouts one_restored))) = None"
proof -
  let ?R = "Running_new march3 1762153200123 click (Fin 5) (Fin 25) (Fin 178)"
  let ?S = "ready\<lparr>workouts := Array [to_object ?R]\<rparr>"
  have st: "\<forall>w \<in> set [?R]. storable w"
    by (simp add: storable_def ctor_defs click_def to_double_examples)
  have w: "workouts ?S = Array (map to_object [?R])" by simp
  from save_then_restore [OF st w] obtain j rs where
    a: "setLocalStorage ?S = (Inr (), ?S\<lparr>storage := Some (JSONText j)\<rparr>)"
    and b: "fst (getLocalStorage (App_fields (Some (JSONText j)))) = Inr ()"
    and c: "workouts (snd (getLocalStorage (App_fields (Some (JSONText j))))) = Array rs"
    and d: "length rs = length [?R]"
    and e: "\<forall>i < length [?R].
         (\<forall>p. p \<noteq> ''date'' \<longrightarrow> read_prop (rs ! i) p = read_prop (to_object ([?R] ! i)) p) \<and>
         read_prop (rs ! i) ''date'' = Str (toISOString (date ([?R] ! i))) \<and>
         class_of (rs ! i) = None"
    by blast
  have "setLocalStorage ?S = (Inr (), ?S\<lparr>storage := Some (JSONText one_saved)\<rparr>)"
    by (simp add: eval_defs Workout_id_example one_saved_def)
  with a have "storage (?S\<lparr>storage := Some (JSONText j)\<rparr>) =
      storage (?S\<lparr>storage := Some (JSONText one_saved)\<rparr>)"
    by simp
  then have j: "j = one_saved" by simp
  from c have r: "workouts one_restored = Array rs"
    by (simp add: one_restored_def j)
  from d obtain x where x: "rs = [x]"
    by (cases rs) auto
  from e have p: "read_prop x p = read_prop (to_object ?R) p" if "p \<noteq> ''date''" for p
    using that by (simp add: x)
  from e have q: "read_prop x ''date'' = Str (toISOString (date ?R))" "class_of x = None"
    by (simp_all add: x)
  have v: "read_prop (to_object ?R) ''cadence'' = Number (Fin 178)"
    by (simp add: ctor_defs object_defs)
  show ?thesis
    using a b p [of "''id''"] p [of "''type''"] p [of "''cadence''"] p [of "''pace''"]
      p [of "''description''"] q v
    unfolding j r x
    by (simp add: Workout_id_example ctor_defs march3_def digits_of.simps digit_char_def
        to_double_examples)
qed

text \<open>
  C1 as stated fails. A store whose record holds its marker is not saved at all; and
  what is read back from a store that is saved has a string where the record has its
  Date and is an object of no class where the record is an instance of \<open>Running\<close>.
\<close>

theorem restore_counterexample:
  "JSON_stringify (workouts one_added) =
     Inl (TypeError ''Converting circular structure to JSON'') \<and>
   JSON_stringify
     (Array [to_object (Running_new march3 1762153200123 click (Fin 5) (Fin 25) (Fin 178))]) =
     Inr (Some one_saved) \<and>
   read_prop (to_object (Running_new march3 1762153200123 click (Fin 5) (Fin 25) (Fin 178)))
     ''date'' = DateObj march3 \<and>
   read_prop (hd (elements (workouts one_restored))) ''date'' =
     Str ''2026-03-03T09:30:00.000Z'' \<and>
   class_of (to_object (Running_new march3 1762153200123 click (Fin 5) (Fin 25) (Fin 178))) =
     Some RunningC \<and>
   class_of (hd (elements (workouts one_restored))) = None"
  by (simp add: one_added_def one_restored_def ready_eq eval_defs Workout_id_example
      one_saved_def getLocalStorage_def App_fields_def)

end
